theory Spec2Isabelle
  imports Main "HOL-Library.Sublist"
begin

section \<open>The syntax tree handed to the extractor\<close>

text \<open>
  The analyzer of \<^verbatim>\<open>Code-view.py\<close> walks the tree that Python's \<^verbatim>\<open>ast.parse\<close>
  returns. The tree is modelled by one datatype \<open>node\<close>, as the visitor treats every
  tree node alike (it dispatches on the node's class name). A constructor is given to
  each node class the visitor or the name resolver has a case for; every other class is
  \<open>Other\<close>, carrying its child nodes in field order. The fields follow the
  \<^verbatim>\<open>_fields\<close> of the Python classes; fields that hold no tree node and that the
  analyzer never reads (\<^verbatim>\<open>ctx\<close>, \<^verbatim>\<open>type_comment\<close>, \<^verbatim>\<open>asname\<close>, \<^verbatim>\<open>level\<close>,
  \<^verbatim>\<open>simple\<close>, \<^verbatim>\<open>type_ignores\<close>) are left out, and so are the type parameters that
  Python 3.12 adds. A \<^verbatim>\<open>keyword\<close> node is represented by its value, the only child it
  has. The last field of \<open>ClassDef\<close> and \<open>FunctionDef\<close> is what
  \<^verbatim>\<open>ast.get_docstring\<close> returns for the node.
\<close>

datatype 'n arg = Arg (arg_name: string) (annotation: "'n option")

datatype 'n arguments = Arguments
  (posonlyargs: "'n arg list")
  (args: "'n arg list")
  (vararg: "'n arg option")
  (kwonlyargs: "'n arg list")
  (kw_defaults: "'n option list")
  (kwarg: "'n arg option")
  (defaults: "'n list")

datatype node =
    Name string
  | Attribute node string
  | Call node "node list" "node list"
  | Module "node list"
  | ClassDef string "node list" "node list" "node list" "node list" "string option"
  | FunctionDef string "node arguments" "node list" "node list" "node option" "string option"
  | Assign "node list" node
  | AnnAssign node node "node option"
  | Import "string list"
  | ImportFrom "string option" "string list"
  | If node "node list" "node list"
  | For node node "node list" "node list"
  | While node "node list" "node list"
  | Other "node list"

text \<open>The exceptions the modelled code can raise or catch.\<close>

datatype py_exception =
    IndexError
  | AttributeError
  | RecursionError
  | SyntaxError string
  | OtherException string

section \<open>The extracted structure\<close>

text \<open>
  The dictionaries built by \<^verbatim>\<open>CodeStructureExtractor\<close>. A variable record made by
  \<^verbatim>\<open>visit_Assign\<close> has no \<^verbatim>\<open>annotation\<close> key: \<open>v_annotation = None\<close>.
  \<^verbatim>\<open>calls\<close> is a \<^verbatim>\<open>defaultdict(set)\<close>: an association list in insertion order
  of the keys, each value a duplicate-free list standing for the set. A key is the
  result of \<^verbatim>\<open>_get_current_scope_id\<close>, which is \<^verbatim>\<open>None\<close> as long as the module
  name is.
\<close>

record var_info =
  v_name :: string
  v_annotation :: "string option"
  v_value :: "string option"

record func_info =
  f_name :: string
  f_args :: "string list"
  f_docstring :: "string option"
  f_return_annotation :: string
  f_decorators :: "string list"
  f_calls_made :: "string list"

record class_info =
  c_name :: string
  c_methods :: "func_info list"
  c_bases :: "string list"
  c_docstring :: "string option"
  c_attributes :: "var_info list"
  c_decorators :: "string list"

record code_structure =
  "module_name" :: "string option"
  global_variables :: "var_info list"
  classes :: "class_info list"
  "functions" :: "func_info list"
  imports_direct :: "string list"
  imports_from :: "string list"
  calls :: "(string option \<times> string list) list"

text \<open>The extractor object: the structure and the scope stack \<^verbatim>\<open>current_scope\<close>.\<close>

record extractor = code_structure +
  current_scope :: "string list"

definition init_extractor :: extractor where
  "init_extractor =
     \<lparr> module_name = None, global_variables = [], classes = [], functions = [],
       imports_direct = [], imports_from = [], calls = [], current_scope = [] \<rparr>"

section \<open>Strings and lists as Python has them\<close>

text \<open>The character \<^verbatim>\<open>'\<close>.\<close>

definition squote :: string where
  "squote = [CHR 0x27]"

text \<open>\<^verbatim>\<open>sep.join(xs)\<close>\<close>

fun join :: "string \<Rightarrow> string list \<Rightarrow> string" where
  "join sep [] = []"
| "join sep [x] = x"
| "join sep (x # y # ys) = x @ sep @ join sep (y # ys)"

text \<open>\<^verbatim>\<open>s.split(c)\<close> for a one-character separator: never the empty list.\<close>

fun split_on :: "char \<Rightarrow> string \<Rightarrow> string list" where
  "split_on c [] = [[]]"
| "split_on c (x # xs) =
     (if x = c then [] # split_on c xs
      else (case split_on c xs of
              [] \<Rightarrow> [[x]]
            | p # ps \<Rightarrow> (x # p) # ps))"

text \<open>\<^verbatim>\<open>s.replace(old, "")\<close> for a non-empty \<open>old\<close>: every occurrence, left to right.\<close>

fun remove_all :: "string \<Rightarrow> string \<Rightarrow> string" where
  "remove_all old [] = []"
| "remove_all old (x # xs) =
     (if old \<noteq> [] \<and> prefix old (x # xs)
      then remove_all old (drop (length old) (x # xs))
      else x # remove_all old xs)"

text \<open>\<^verbatim>\<open>os.path.basename(p)\<close> (POSIX): what follows the last slash.\<close>

definition basename :: "string \<Rightarrow> string" where
  "basename p = last (split_on (CHR ''/'') p)"

text \<open>
  The position a Python list of length \<open>n\<close> reads at index \<open>i\<close>: a negative index
  counts from the end, anything else out of range raises \<^verbatim>\<open>IndexError\<close>.
\<close>

definition py_index :: "nat \<Rightarrow> int \<Rightarrow> nat option" where
  "py_index n i =
     (if 0 \<le> i \<and> i < int n then Some (nat i)
      else if - int n \<le> i \<and> i < 0 then Some (nat (int n + i))
      else None)"

text \<open>\<^verbatim>\<open>xs[i] += s\<close>\<close>

definition iadd_at :: "string list \<Rightarrow> int \<Rightarrow> string \<Rightarrow> py_exception + string list" where
  "iadd_at xs i s =
     (case py_index (length xs) i of
        None \<Rightarrow> Inl IndexError
      | Some k \<Rightarrow> Inr (xs[k := xs ! k @ s]))"

text \<open>Running a visitor over a list of nodes; the first exception ends the loop.\<close>

fun foldM :: "('a \<Rightarrow> 's \<Rightarrow> 'e + 's) \<Rightarrow> 'a list \<Rightarrow> 's \<Rightarrow> 'e + 's" where
  "foldM f [] s = Inr s"
| "foldM f (x # xs) s = (case f x s of Inl e \<Rightarrow> Inl e | Inr s' \<Rightarrow> foldM f xs s')"

lemma foldM_cong [fundef_cong]:
  "xs = ys \<Longrightarrow> s = t \<Longrightarrow> (\<And>x u. x \<in> set ys \<Longrightarrow> f x u = g x u)
   \<Longrightarrow> foldM f xs s = foldM g ys t"
  by (induction ys arbitrary: xs s t) (auto split: sum.splits)

section \<open>NameResolver: \<^verbatim>\<open>_get_full_name\<close>\<close>

text \<open>
  Lines 42 to 49: the text the resolver returns for a node, when the interpreter's
  recursion limit allows every nested call it makes.
\<close>

fun get_full_name :: "node \<Rightarrow> string" where
  "get_full_name (Name ident) = ident"
| "get_full_name (Attribute v attr) = get_full_name v @ ''.'' @ attr"
| "get_full_name (Call func as ks) = get_full_name func @ ''(...)''"
| "get_full_name _ = ''<?>''"

text \<open>The node classes the resolver has no case for.\<close>

definition other_kind :: "node \<Rightarrow> bool" where
  "other_kind n =
     (case n of Name _ \<Rightarrow> False | Attribute _ _ \<Rightarrow> False | Call _ _ _ \<Rightarrow> False | _ \<Rightarrow> True)"

text \<open>
  The resolver as the interpreter runs it. Every call of \<^verbatim>\<open>_get_full_name\<close> is a
  call of its own, and the interpreter raises \<^verbatim>\<open>RecursionError\<close> at a call that its
  recursion limit no longer allows: \<open>k\<close> is the number of nested calls of the resolver
  that the limit still allows where the resolver is called.
\<close>

fun get_full_name_within :: "nat \<Rightarrow> node \<Rightarrow> py_exception + string" where
  "get_full_name_within 0 n = Inl RecursionError"
| "get_full_name_within (Suc k) (Name ident) = Inr ident"
| "get_full_name_within (Suc k) (Attribute v attr) =
     (case get_full_name_within k v of
        Inl e \<Rightarrow> Inl e
      | Inr s \<Rightarrow> Inr (s @ ''.'' @ attr))"
| "get_full_name_within (Suc k) (Call func as ks) =
     (case get_full_name_within k func of
        Inl e \<Rightarrow> Inl e
      | Inr s \<Rightarrow> Inr (s @ ''(...)''))"
| "get_full_name_within (Suc k) n = Inr ''<?>''"

text \<open>The number of nested calls the resolver makes for a node.\<close>

fun resolve_depth :: "node \<Rightarrow> nat" where
  "resolve_depth (Attribute v attr) = Suc (resolve_depth v)"
| "resolve_depth (Call func as ks) = Suc (resolve_depth func)"
| "resolve_depth n = Suc 0"

section \<open>StructuralExtractor: the visitor\<close>

text \<open>\<^verbatim>\<open>ast.iter_child_nodes\<close>: the child nodes in field order.\<close>

definition opt_list :: "'a option \<Rightarrow> 'a list" where
  "opt_list x = (case x of None \<Rightarrow> [] | Some y \<Rightarrow> [y])"

definition arg_children :: "'n arg \<Rightarrow> 'n list" where
  "arg_children a = opt_list (annotation a)"

definition arguments_children :: "'n arguments \<Rightarrow> 'n list" where
  "arguments_children a =
     concat (map arg_children (posonlyargs a)) @
     concat (map arg_children (args a)) @
     concat (map arg_children (opt_list (vararg a))) @
     concat (map arg_children (kwonlyargs a)) @
     concat (map opt_list (kw_defaults a)) @
     concat (map arg_children (opt_list (kwarg a))) @
     defaults a"

fun child_nodes :: "node \<Rightarrow> node list" where
  "child_nodes (Name ident) = []"
| "child_nodes (Attribute v attr) = [v]"
| "child_nodes (Call func as ks) = func # as @ ks"
| "child_nodes (Module body) = body"
| "child_nodes (ClassDef name bases keywords body decorator_list doc) =
     bases @ keywords @ body @ decorator_list"
| "child_nodes (FunctionDef name a body decorator_list returns doc) =
     arguments_children a @ body @ decorator_list @ opt_list returns"
| "child_nodes (Assign targets v) = targets @ [v]"
| "child_nodes (AnnAssign target ann v) = [target, ann] @ opt_list v"
| "child_nodes (Import names) = []"
| "child_nodes (ImportFrom module names) = []"
| "child_nodes (If test body orelse) = test # body @ orelse"
| "child_nodes (For target iter body orelse) = target # iter # body @ orelse"
| "child_nodes (While test body orelse) = test # body @ orelse"
| "child_nodes (Other cs) = cs"

text \<open>\<^verbatim>\<open>_add_call\<close>: \<^verbatim>\<open>calls[caller_id].add(callee_id)\<close>\<close>

fun add_call ::
  "string option \<Rightarrow> string \<Rightarrow> (string option \<times> string list) list
   \<Rightarrow> (string option \<times> string list) list" where
  "add_call caller_id callee_id [] = [(caller_id, [callee_id])]"
| "add_call caller_id callee_id ((k, vs) # rest) =
     (if k = caller_id
      then (k, if callee_id \<in> set vs then vs else vs @ [callee_id]) # rest
      else (k, vs) # add_call caller_id callee_id rest)"

definition get_current_scope_id :: "extractor \<Rightarrow> string option" where
  "get_current_scope_id st =
     (if current_scope st \<noteq> [] then Some (join ''.'' (current_scope st))
      else module_name st)"

text \<open>\<^verbatim>\<open>self.current_scope.pop()\<close>\<close>

definition pop_scope :: "extractor \<Rightarrow> py_exception + extractor" where
  "pop_scope st =
     (if current_scope st = [] then Inl IndexError
      else Inr (st\<lparr>current_scope := butlast (current_scope st)\<rparr>))"

text \<open>The argument strings of \<^verbatim>\<open>visit_FunctionDef\<close>, lines 71 to 87.\<close>

definition arg_text :: "node arg \<Rightarrow> string" where
  "arg_text a =
     arg_name a @ (case annotation a of None \<Rightarrow> [] | Some t \<Rightarrow> '': '' @ get_full_name t)"

text \<open>
  \<^verbatim>\<open>for i, default in enumerate(node.args.defaults[::-1]):\<close>
  \<^verbatim>\<open>    args_list[len(args_list) - 1 - i] += f"={...}"\<close>,
  called with the reversed list and \<open>i = 0\<close>.
\<close>

fun add_defaults :: "string list \<Rightarrow> nat \<Rightarrow> node list \<Rightarrow> py_exception + string list" where
  "add_defaults args_list i [] = Inr args_list"
| "add_defaults args_list i (d # ds) =
     (case iadd_at args_list (int (length args_list) - 1 - int i) (''='' @ get_full_name d) of
        Inl e \<Rightarrow> Inl e
      | Inr args_list' \<Rightarrow> add_defaults args_list' (Suc i) ds)"

text \<open>
  \<^verbatim>\<open>for i, default in enumerate(node.args.kw_defaults[::-1]):\<close>
  \<^verbatim>\<open>    if default:\<close>
  \<^verbatim>\<open>        args_list[len(args_list) - len(node.args.kwonlyargs) - 1 - i] += f"={...}"\<close>,
  with \<open>k\<close> the number of keyword-only arguments.
\<close>

fun add_kw_defaults ::
  "string list \<Rightarrow> nat \<Rightarrow> nat \<Rightarrow> node option list \<Rightarrow> py_exception + string list" where
  "add_kw_defaults args_list k i [] = Inr args_list"
| "add_kw_defaults args_list k i (None # ds) = add_kw_defaults args_list k (Suc i) ds"
| "add_kw_defaults args_list k i (Some d # ds) =
     (case iadd_at args_list (int (length args_list) - int k - 1 - int i)
             (''='' @ get_full_name d) of
        Inl e \<Rightarrow> Inl e
      | Inr args_list' \<Rightarrow> add_kw_defaults args_list' k (Suc i) ds)"

definition function_args :: "node arguments \<Rightarrow> py_exception + string list" where
  "function_args a =
     (let args_list = map arg_text (posonlyargs a @ args a @ kwonlyargs a) in
      case add_defaults args_list 0 (rev (defaults a)) of
        Inl e \<Rightarrow> Inl e
      | Inr args_list \<Rightarrow>
          if kwonlyargs a \<noteq> []
          then add_kw_defaults args_list (length (kwonlyargs a)) 0 (rev (kw_defaults a))
          else Inr args_list)"

text \<open>
  \<^verbatim>\<open>for cls in self.structure["classes"]:\<close>
  \<^verbatim>\<open>    if cls["name"] == class_name: cls["methods"].append(func_info); break\<close>
\<close>

fun append_method :: "string \<Rightarrow> func_info \<Rightarrow> class_info list \<Rightarrow> class_info list" where
  "append_method class_name fi [] = []"
| "append_method class_name fi (cls # rest) =
     (if c_name cls = class_name
      then cls\<lparr>c_methods := c_methods cls @ [fi]\<rparr> # rest
      else cls # append_method class_name fi rest)"

fun append_attribute :: "string \<Rightarrow> var_info \<Rightarrow> class_info list \<Rightarrow> class_info list" where
  "append_attribute scope_name vi [] = []"
| "append_attribute scope_name vi (cls # rest) =
     (if c_name cls = scope_name
      then cls\<lparr>c_attributes := c_attributes cls @ [vi]\<rparr> # rest
      else cls # append_attribute scope_name vi rest)"

text \<open>Where \<^verbatim>\<open>visit_Assign\<close> and \<^verbatim>\<open>visit_AnnAssign\<close> put a variable record.\<close>

definition record_variable :: "var_info \<Rightarrow> extractor \<Rightarrow> extractor" where
  "record_variable vi st =
     (if current_scope st \<noteq> []
      then st\<lparr>classes := append_attribute (last (current_scope st)) vi (classes st)\<rparr>
      else st\<lparr>global_variables := global_variables st @ [vi]\<rparr>)"

fun assign_targets :: "node list \<Rightarrow> node \<Rightarrow> extractor \<Rightarrow> extractor" where
  "assign_targets [] v st = st"
| "assign_targets (Name ident # ts) v st =
     assign_targets ts v
       (record_variable
          \<lparr>v_name = ident, v_annotation = None, v_value = Some (get_full_name v)\<rparr> st)"
| "assign_targets (t # ts) v st = assign_targets ts v st"

definition is_name_or_attribute :: "node \<Rightarrow> bool" where
  "is_name_or_attribute n = (case n of Name _ \<Rightarrow> True | Attribute _ _ \<Rightarrow> True | _ \<Rightarrow> False)"

definition import_from_text :: "string option \<Rightarrow> string \<Rightarrow> string" where
  "import_from_text module alias_name =
     (let m = (case module of None \<Rightarrow> [] | Some m \<Rightarrow> m) in
      if m \<noteq> [] then m @ ''.'' @ alias_name else alias_name)"

text \<open>The record \<^verbatim>\<open>visit_AnnAssign\<close> makes, lines 135 to 148.\<close>

definition ann_assign_target :: "node \<Rightarrow> node \<Rightarrow> node option \<Rightarrow> extractor \<Rightarrow> extractor" where
  "ann_assign_target target ann v st =
     (case target of
        Name ident \<Rightarrow>
          record_variable
            \<lparr> v_name = ident,
              v_annotation = Some (get_full_name ann),
              v_value = map_option get_full_name v \<rparr> st
      | _ \<Rightarrow> st)"

text \<open>The class record of \<^verbatim>\<open>visit_ClassDef\<close>, lines 56 to 63.\<close>

definition make_class_info :: "string \<Rightarrow> node list \<Rightarrow> node list \<Rightarrow> string option \<Rightarrow> class_info"
  where
  "make_class_info name bases decorator_list doc =
     \<lparr> c_name = name,
       c_methods = [],
       c_bases = map get_full_name (filter is_name_or_attribute bases),
       c_docstring = doc,
       c_attributes = [],
       c_decorators = map get_full_name decorator_list \<rparr>"

text \<open>The function record of \<^verbatim>\<open>visit_FunctionDef\<close>, lines 71 to 100.\<close>

definition make_func_info ::
  "string \<Rightarrow> node arguments \<Rightarrow> node list \<Rightarrow> node option \<Rightarrow> string option
   \<Rightarrow> py_exception + func_info" where
  "make_func_info name a decorator_list returns doc =
     (case function_args a of
        Inl e \<Rightarrow> Inl e
      | Inr args_list \<Rightarrow>
          (let return_annotation =
                 (case returns of None \<Rightarrow> [] | Some r \<Rightarrow> '' -> '' @ get_full_name r)
           in Inr \<lparr> f_name = name,
                    f_args = args_list,
                    f_docstring = doc,
                    f_return_annotation = return_annotation,
                    f_decorators = map get_full_name decorator_list,
                    f_calls_made = [] \<rparr>))"

text \<open>Method or global function: lines 102 to 111.\<close>

definition add_func_info :: "func_info \<Rightarrow> extractor \<Rightarrow> extractor" where
  "add_func_info func_info st =
     (if current_scope st \<noteq> [] \<and> last (current_scope st) \<in> set (map c_name (classes st))
      then st\<lparr>classes := append_method (last (current_scope st)) func_info (classes st)\<rparr>
      else st\<lparr>functions := functions st @ [func_info]\<rparr>)"

lemma child_nodes_size_arg:
  "c \<in> set (arg_children a) \<Longrightarrow> size c \<le> size_arg size a"
  by (cases a) (auto simp: arg_children_def opt_list_def split: option.splits)

lemma child_nodes_size_args:
  "c \<in> set (concat (map arg_children xs)) \<Longrightarrow> size c \<le> size_list (size_arg size) xs"
proof (induction xs)
  case Nil
  then show ?case by simp
next
  case (Cons a xs)
  from Cons.prems have "c \<in> set (arg_children a) \<or> c \<in> set (concat (map arg_children xs))"
    by simp
  then show ?case
  proof
    assume "c \<in> set (arg_children a)"
    then have "size c \<le> size_arg size a" by (rule child_nodes_size_arg)
    then show ?thesis by simp
  next
    assume "c \<in> set (concat (map arg_children xs))"
    then have "size c \<le> size_list (size_arg size) xs" by (rule Cons.IH)
    then show ?thesis by simp
  qed
qed

lemma child_nodes_size_opt_arg:
  "c \<in> set (concat (map arg_children (opt_list x))) \<Longrightarrow> size c \<le> size_option (size_arg size) x"
  by (cases x) (auto simp: opt_list_def dest: child_nodes_size_arg)

lemma child_nodes_size_opts:
  "c \<in> set (concat (map opt_list xs)) \<Longrightarrow> size c \<le> size_list (size_option size) xs"
  by (induction xs) (auto simp: opt_list_def split: option.splits)

lemma child_nodes_size_list:
  "c \<in> set xs \<Longrightarrow> size c \<le> size_list size xs"
  by (induction xs) auto

lemma child_nodes_size_arguments:
  "c \<in> set (arguments_children a) \<Longrightarrow> size c \<le> size_arguments size a"
proof (cases a)
  case (Arguments x1 x2 x3 x4 x5 x6 x7)
  assume "c \<in> set (arguments_children a)"
  then consider
      "c \<in> set (concat (map arg_children x1))"
    | "c \<in> set (concat (map arg_children x2))"
    | "c \<in> set (concat (map arg_children (opt_list x3)))"
    | "c \<in> set (concat (map arg_children x4))"
    | "c \<in> set (concat (map opt_list x5))"
    | "c \<in> set (concat (map arg_children (opt_list x6)))"
    | "c \<in> set x7"
    by (simp only: arguments_children_def Arguments arguments.sel set_append Un_iff) blast
  then show ?thesis
  proof cases
    case 1
    from child_nodes_size_args [OF this] show ?thesis by (simp add: Arguments)
  next
    case 2
    from child_nodes_size_args [OF this] show ?thesis by (simp add: Arguments)
  next
    case 3
    from child_nodes_size_opt_arg [OF this] show ?thesis by (simp add: Arguments)
  next
    case 4
    from child_nodes_size_args [OF this] show ?thesis by (simp add: Arguments)
  next
    case 5
    from child_nodes_size_opts [OF this] show ?thesis by (simp add: Arguments)
  next
    case 6
    from child_nodes_size_opt_arg [OF this] show ?thesis by (simp add: Arguments)
  next
    case 7
    from child_nodes_size_list [OF this] show ?thesis by (simp add: Arguments)
  qed
qed

lemma child_nodes_size: "c \<in> set (child_nodes n) \<Longrightarrow> size c < size n"
proof (cases n)
  case (FunctionDef name a body decorator_list returns doc)
  assume "c \<in> set (child_nodes n)"
  then consider "c \<in> set (arguments_children a)" | "c \<in> set body"
    | "c \<in> set decorator_list" | "returns = Some c"
    by (auto simp: FunctionDef opt_list_def split: option.splits)
  then show ?thesis
  proof cases
    case 1
    from child_nodes_size_arguments [OF this] show ?thesis by (simp add: FunctionDef)
  next
    case 2
    from child_nodes_size_list [OF this] show ?thesis by (simp add: FunctionDef)
  next
    case 3
    from child_nodes_size_list [OF this] show ?thesis by (simp add: FunctionDef)
  next
    case 4
    then show ?thesis by (simp add: FunctionDef)
  qed
qed (auto simp: opt_list_def less_Suc_eq_le split: option.splits dest: child_nodes_size_list)

text \<open>
  \<^verbatim>\<open>NodeVisitor.visit\<close>: the handler named after the node's class, or
  \<^verbatim>\<open>generic_visit\<close>, which visits the child nodes in order. Each equation is one
  handler of \<^verbatim>\<open>CodeStructureExtractor\<close>; \<open>foldM visit (child_nodes n)\<close> is its call
  \<^verbatim>\<open>self.generic_visit(node)\<close>. The extractor object is passed through and returned;
  \<open>Inl\<close> is an exception leaving the handler. The limit Python puts on the depth of
  the recursion is not modelled here: the visit is that of a tree the limit allows, and
  \<open>get_full_name\<close> is what the resolver returns then.
\<close>

function visit :: "node \<Rightarrow> extractor \<Rightarrow> py_exception + extractor" where
  "visit (Module body) st =
     foldM visit (child_nodes (Module body)) (st\<lparr>module_name := Some ''Module''\<rparr>)"
| "visit (ClassDef name bases keywords body decorator_list doc) st =
     (let class_info = make_class_info name bases decorator_list doc;
          st1 = st\<lparr>classes := classes st @ [class_info]\<rparr>;
          st2 = st1\<lparr>current_scope := current_scope st1 @ [name]\<rparr>
      in case foldM visit
                (child_nodes (ClassDef name bases keywords body decorator_list doc)) st2 of
           Inl e \<Rightarrow> Inl e
         | Inr st3 \<Rightarrow> pop_scope st3)"
| "visit (FunctionDef name a body decorator_list returns doc) st =
     (case make_func_info name a decorator_list returns doc of
        Inl e \<Rightarrow> Inl e
      | Inr func_info \<Rightarrow>
          (let st1 = add_func_info func_info st;
               st2 = st1\<lparr>current_scope := current_scope st1 @ [name]\<rparr>
           in case foldM visit
                     (child_nodes (FunctionDef name a body decorator_list returns doc)) st2 of
                Inl e \<Rightarrow> Inl e
              | Inr st3 \<Rightarrow> pop_scope st3))"
| "visit (Assign targets v) st =
     foldM visit (child_nodes (Assign targets v)) (assign_targets targets v st)"
| "visit (AnnAssign target ann v) st =
     foldM visit (child_nodes (AnnAssign target ann v)) (ann_assign_target target ann v st)"
| "visit (Import names) st =
     foldM visit (child_nodes (Import names))
       (st\<lparr>imports_direct := imports_direct st @ names\<rparr>)"
| "visit (ImportFrom module names) st =
     foldM visit (child_nodes (ImportFrom module names))
       (st\<lparr>imports_from := imports_from st @ map (import_from_text module) names\<rparr>)"
| "visit (Call func as ks) st =
     foldM visit (child_nodes (Call func as ks))
       (st\<lparr>calls := add_call (get_current_scope_id st) (get_full_name func) (calls st)\<rparr>)"
| "visit (If test body orelse) st =
     foldM visit (child_nodes (If test body orelse))
       (st\<lparr>calls := add_call (get_current_scope_id st)
                       (''Condition: '' @ get_full_name test) (calls st)\<rparr>)"
| "visit (For target iter body orelse) st =
     foldM visit (child_nodes (For target iter body orelse))
       (st\<lparr>calls := add_call (get_current_scope_id st)
                       (''For Loop: '' @ get_full_name iter) (calls st)\<rparr>)"
| "visit (While test body orelse) st =
     foldM visit (child_nodes (While test body orelse))
       (st\<lparr>calls := add_call (get_current_scope_id st)
                       (''While Loop: '' @ get_full_name test) (calls st)\<rparr>)"
| "visit (Name ident) st = foldM visit (child_nodes (Name ident)) st"
| "visit (Attribute v attr) st = foldM visit (child_nodes (Attribute v attr)) st"
| "visit (Other cs) st = foldM visit (child_nodes (Other cs)) st"
  by pat_completeness auto
termination
  by (relation "measure (\<lambda>(n, st). size n)")
     (auto simp del: child_nodes.simps node.size simp: child_nodes_size)

section \<open>The visit as a list of handler calls\<close>

text \<open>
  What the handler of a node records, that is, its statements other than the push
  of the name, the call of \<^verbatim>\<open>generic_visit\<close> and the pop.
\<close>

fun handle :: "node \<Rightarrow> extractor \<Rightarrow> py_exception + extractor" where
  "handle (Module body) st = Inr (st\<lparr>module_name := Some ''Module''\<rparr>)"
| "handle (ClassDef name bases keywords body decorator_list doc) st =
     Inr (st\<lparr>classes := classes st @ [make_class_info name bases decorator_list doc]\<rparr>)"
| "handle (FunctionDef name a body decorator_list returns doc) st =
     (case make_func_info name a decorator_list returns doc of
        Inl e \<Rightarrow> Inl e
      | Inr func_info \<Rightarrow> Inr (add_func_info func_info st))"
| "handle (Assign targets v) st = Inr (assign_targets targets v st)"
| "handle (AnnAssign target ann v) st = Inr (ann_assign_target target ann v st)"
| "handle (Import names) st = Inr (st\<lparr>imports_direct := imports_direct st @ names\<rparr>)"
| "handle (ImportFrom module names) st =
     Inr (st\<lparr>imports_from := imports_from st @ map (import_from_text module) names\<rparr>)"
| "handle (Call func as ks) st =
     Inr (st\<lparr>calls := add_call (get_current_scope_id st) (get_full_name func) (calls st)\<rparr>)"
| "handle (If test body orelse) st =
     Inr (st\<lparr>calls := add_call (get_current_scope_id st)
                            (''Condition: '' @ get_full_name test) (calls st)\<rparr>)"
| "handle (For target iter body orelse) st =
     Inr (st\<lparr>calls := add_call (get_current_scope_id st)
                            (''For Loop: '' @ get_full_name iter) (calls st)\<rparr>)"
| "handle (While test body orelse) st =
     Inr (st\<lparr>calls := add_call (get_current_scope_id st)
                            (''While Loop: '' @ get_full_name test) (calls st)\<rparr>)"
| "handle (Name ident) st = Inr st"
| "handle (Attribute v attr) st = Inr st"
| "handle (Other cs) st = Inr st"

text \<open>The name a class or function definition puts on the scope stack for its children.\<close>

fun pushed :: "node \<Rightarrow> string list" where
  "pushed (ClassDef name bases keywords body decorator_list doc) = [name]"
| "pushed (FunctionDef name a body decorator_list returns doc) = [name]"
| "pushed _ = []"

text \<open>
  The nodes of a tree in the order of the visit, each with the chain of the names of
  the class and function definitions that enclose it, outermost first, after the chain
  \<open>sc\<close> that encloses the tree. The chain is handed down; there is no stack.
\<close>

function enclosed_nodes :: "string list \<Rightarrow> node \<Rightarrow> (string list \<times> node) list" where
  "enclosed_nodes sc n = (sc, n) # concat (map (enclosed_nodes (sc @ pushed n)) (child_nodes n))"
  by pat_completeness auto
termination
  by (relation "measure (\<lambda>(sc, n). size n)") (auto simp: child_nodes_size)

declare enclosed_nodes.simps [simp del]

text \<open>The handler of a node run with the scope stack set to a given chain.\<close>

definition handle_at :: "string list \<times> node \<Rightarrow> extractor \<Rightarrow> py_exception + extractor" where
  "handle_at e st =
     map_sum id (\<lambda>st'. st'\<lparr>current_scope := current_scope st\<rparr>)
       (handle (snd e) (st\<lparr>current_scope := fst e\<rparr>))"

section \<open>\<^verbatim>\<open>parse_python_file\<close>\<close>

text \<open>
  The file system and the parser are outside the program: \<open>path_exists\<close> is
  \<^verbatim>\<open>os.path.exists\<close>, \<open>read_file\<close> is opening and reading the file (\<open>Inl\<close> the text of
  the exception raised), \<open>ast_parse\<close> is \<^verbatim>\<open>ast.parse\<close>. The function returns its
  pair together with the list of the outside calls it made, in order.
\<close>

record env =
  path_exists :: "string \<Rightarrow> bool"
  read_file :: "string \<Rightarrow> string + string"
  ast_parse :: "string \<Rightarrow> py_exception + node"

datatype io_event = PathExists string | ReadFile string | AstParse string

text \<open>\<^verbatim>\<open>str(e)\<close>\<close>

fun exception_text :: "py_exception \<Rightarrow> string" where
  "exception_text IndexError = ''list index out of range''"
| "exception_text AttributeError = squote @ ''NoneType'' @ squote @ '' object has no attribute '' @ squote @ ''split'' @ squote"
| "exception_text RecursionError = ''maximum recursion depth exceeded''"
| "exception_text (SyntaxError m) = m"
| "exception_text (OtherException m) = m"

definition parse_python_file ::
  "env \<Rightarrow> string \<Rightarrow> (code_structure option \<times> string option) \<times> io_event list" where
  "parse_python_file e filepath =
     (if \<not> path_exists e filepath
      then ((None, Some (''Error: File does not exist '' @ squote @ filepath @ squote)),
            [PathExists filepath])
      else case read_file e filepath of
        Inl err \<Rightarrow>
          ((None, Some (''Error: Could not read file '' @ squote @ filepath @ squote @ '': '' @ err)),
           [PathExists filepath, ReadFile filepath])
      | Inr source_code \<Rightarrow>
          (let trace = [PathExists filepath, ReadFile filepath, AstParse source_code];
               result =
                 (case ast_parse e source_code of
                    Inl err \<Rightarrow> Inl err
                  | Inr tree \<Rightarrow>
                      visit tree
                        (init_extractor
                           \<lparr>module_name := Some (remove_all ''.py'' (basename filepath))\<rparr>))
           in case result of
                Inr extractor \<Rightarrow> ((Some (code_structure.truncate extractor), None), trace)
              | Inl (SyntaxError m) \<Rightarrow>
                  ((None, Some (''Parsing error: File '' @ squote @ filepath @ squote
                                @ '' contains syntax error: '' @ m)), trace)
              | Inl err \<Rightarrow>
                  ((None, Some (''An unknown error occurred during parsing: ''
                                @ exception_text err)), trace)))"

section \<open>GraphModelBuilder and GraphExporter: \<^verbatim>\<open>generate_graph_visualization\<close>\<close>

text \<open>
  The \<^verbatim>\<open>graphviz.Digraph\<close> under construction: the node statements
  (name, label, attributes) and the edge statements (tail, head, attributes) in the
  order of the calls of \<^verbatim>\<open>node\<close> and \<^verbatim>\<open>edge\<close>. A subgraph cluster only groups
  statements for the layout; its statements are recorded in the one graph. The builder
  is the graph together with the set \<^verbatim>\<open>all_nodes\<close>.
\<close>

type_synonym attrs = "(string \<times> string) list"

record digraph =
  dot_nodes :: "(string \<times> string \<times> attrs) list"
  dot_edges :: "(string \<times> string \<times> attrs) list"

record builder = digraph +
  all_nodes :: "string set"

definition dot_node :: "string \<Rightarrow> string \<Rightarrow> attrs \<Rightarrow> builder \<Rightarrow> builder" where
  "dot_node name label a b = b\<lparr>dot_nodes := dot_nodes b @ [(name, label, a)]\<rparr>"

definition dot_edge :: "string \<Rightarrow> string \<Rightarrow> attrs \<Rightarrow> builder \<Rightarrow> builder" where
  "dot_edge tail_name head_name a b = b\<lparr>dot_edges := dot_edges b @ [(tail_name, head_name, a)]\<rparr>"

definition all_nodes_add :: "string \<Rightarrow> builder \<Rightarrow> builder" where
  "all_nodes_add name b = b\<lparr>all_nodes := insert name (all_nodes b)\<rparr>"

text \<open>What an f-string makes of a value that is a string or \<^verbatim>\<open>None\<close>.\<close>

definition fmt :: "string option \<Rightarrow> string" where
  "fmt x = (case x of None \<Rightarrow> ''None'' | Some s \<Rightarrow> s)"

definition newline :: string where
  "newline = [CHR 0x0A]"

definition module_id_of :: "string option \<Rightarrow> string" where
  "module_id_of mn = ''module_'' @ fmt mn"

text \<open>Lines 315 to 326: the module node and the global-variables node.\<close>

definition add_module :: "code_structure \<Rightarrow> builder \<Rightarrow> builder" where
  "add_module s b =
     (let module_id = module_id_of (module_name s);
          b = dot_node module_id (''Module: '' @ fmt (module_name s))
                [(''shape'', ''folder''), (''style'', ''filled''), (''fillcolor'', ''#ADD8E6'')] b;
          b = all_nodes_add module_id b
      in if global_variables s \<noteq> []
         then (let gv_node_id = module_id @ ''_globals'';
                   b = dot_node gv_node_id ''Global Variables''
                         [(''shape'', ''note''), (''style'', ''filled''),
                          (''fillcolor'', ''grey''), (''fontcolor'', ''white'')] b;
                   b = dot_edge module_id gv_node_id [(''label'', ''defines'')] b
               in all_nodes_add gv_node_id b)
         else b)"

text \<open>Lines 330 to 337: one global function.\<close>

definition signature_label :: "string \<Rightarrow> func_info \<Rightarrow> string" where
  "signature_label kind func =
     (let l = kind @ '': '' @ f_name func @ ''('' @ newline @ join '', '' (f_args func)
              @ '')'' @ f_return_annotation func
      in if f_decorators func \<noteq> []
         then ''Decorators: '' @ join '', '' (f_decorators func) @ newline @ l
         else l)"

definition add_function :: "string \<Rightarrow> func_info \<Rightarrow> builder \<Rightarrow> builder" where
  "add_function module_id func b =
     (let func_label = signature_label ''Function'' func;
          func_id = module_id @ ''.'' @ f_name func;
          b = dot_node func_id func_label
                [(''shape'', ''ellipse''), (''style'', ''filled''), (''fillcolor'', ''#90EE90'')] b;
          b = dot_edge module_id func_id [(''label'', ''contains'')] b
      in all_nodes_add func_id b)"

text \<open>Lines 352 to 361: one class attribute.\<close>

definition add_attribute :: "string \<Rightarrow> var_info \<Rightarrow> builder \<Rightarrow> builder" where
  "add_attribute class_id attr b =
     (let attr_label = ''Attribute: '' @ v_name attr;
          attr_label =
            (case v_annotation attr of
               Some t \<Rightarrow> if t \<noteq> [] then attr_label @ '': '' @ t else attr_label
             | None \<Rightarrow> attr_label);
          attr_label =
            (case v_value attr of
               Some v \<Rightarrow> attr_label @ '' = '' @ v
             | None \<Rightarrow> attr_label);
          attr_id = class_id @ ''.'' @ v_name attr;
          b = dot_node attr_id attr_label
                [(''shape'', ''rectangle''), (''style'', ''filled''), (''fillcolor'', ''#D3D3D3'')] b;
          b = dot_edge class_id attr_id [(''label'', ''has attribute'')] b
      in all_nodes_add attr_id b)"

text \<open>Lines 364 to 371: one method.\<close>

definition add_method :: "string \<Rightarrow> func_info \<Rightarrow> builder \<Rightarrow> builder" where
  "add_method class_id method b =
     (let method_id = class_id @ ''.'' @ f_name method;
          method_label = signature_label ''Method'' method;
          b = dot_node method_id method_label
                [(''shape'', ''octagon''), (''style'', ''filled''), (''fillcolor'', ''#FFB6C1'')] b;
          b = dot_edge class_id method_id [(''label'', ''contains method'')] b
      in all_nodes_add method_id b)"

text \<open>Lines 340 to 371: one class, its attributes and its methods.\<close>

definition add_class :: "string \<Rightarrow> class_info \<Rightarrow> builder \<Rightarrow> builder" where
  "add_class module_id cls b =
     (let class_id = module_id @ ''.'' @ c_name cls;
          bases_str = (if c_bases cls \<noteq> [] then ''('' @ join '', '' (c_bases cls) @ '')'' else []);
          b = dot_node class_id (''Class: '' @ c_name cls @ bases_str)
                [(''shape'', ''component''), (''style'', ''filled''), (''fillcolor'', ''#FFD700'')] b;
          b = all_nodes_add class_id b;
          b = dot_edge module_id class_id [(''label'', ''contains'')] b;
          b = fold (add_attribute class_id) (c_attributes cls) b
      in fold (add_method class_id) (c_methods cls) b)"

text \<open>Lines 376 to 381: a node for every callee that names no node yet.\<close>

definition add_callee_node :: "string \<Rightarrow> builder \<Rightarrow> builder" where
  "add_callee_node callee b =
     (if callee \<notin> all_nodes b
      then all_nodes_add callee
             (dot_node callee callee
                [(''shape'', ''box''), (''style'', ''dashed''), (''color'', ''gray''),
                 (''fillcolor'', ''white'')] b)
      else b)"

definition add_callee_nodes :: "code_structure \<Rightarrow> builder \<Rightarrow> builder" where
  "add_callee_nodes s b = fold (\<lambda>(caller, callees). fold add_callee_node callees) (calls s) b"

text \<open>Lines 387 to 394: the node name of a caller, from the parts of its scope id.\<close>

definition caller_id_of :: "string option \<Rightarrow> string \<Rightarrow> string" where
  "caller_id_of mn caller_raw =
     (let caller_parts = split_on (CHR ''.'') caller_raw in
      if length caller_parts = 1
      then (if Some (caller_parts ! 0) \<noteq> mn
            then ''module_'' @ fmt mn @ ''.'' @ caller_parts ! 0
            else ''module_'' @ fmt mn)
      else if length caller_parts = 2
      then ''module_'' @ fmt mn @ ''.'' @ caller_parts ! 0 @ ''.'' @ caller_parts ! 1
      else if length caller_parts = 3
      then ''module_'' @ fmt mn @ ''.'' @ caller_parts ! 0 @ ''.'' @ caller_parts ! 1
           @ ''.'' @ caller_parts ! 2
      else [])"

text \<open>Lines 405 to 418: the node name of a callee.\<close>

fun method_node_of :: "string option \<Rightarrow> string \<Rightarrow> string set \<Rightarrow> class_info list \<Rightarrow> string option"
  where
  "method_node_of mn callee nodes [] = None"
| "method_node_of mn callee nodes (cls # rest) =
     (if ''module_'' @ fmt mn @ ''.'' @ c_name cls @ ''.'' @ callee \<in> nodes
      then Some (''module_'' @ fmt mn @ ''.'' @ c_name cls @ ''.'' @ callee)
      else method_node_of mn callee nodes rest)"

definition callee_id_of :: "code_structure \<Rightarrow> string set \<Rightarrow> string \<Rightarrow> string" where
  "callee_id_of s nodes callee =
     (if ''module_'' @ fmt (module_name s) @ ''.'' @ callee \<in> nodes
      then ''module_'' @ fmt (module_name s) @ ''.'' @ callee
      else case method_node_of (module_name s) callee nodes (classes s) of
             Some callee_id \<Rightarrow> callee_id
           | None \<Rightarrow> callee)"

text \<open>Lines 405 to 421: the edge of one callee of a caller.\<close>

definition add_call_edge :: "code_structure \<Rightarrow> string \<Rightarrow> string \<Rightarrow> builder \<Rightarrow> builder" where
  "add_call_edge s caller_id callee b =
     (let callee_id = callee_id_of s (all_nodes b) callee in
      if caller_id \<noteq> [] \<and> callee_id \<noteq> [] \<and> caller_id \<noteq> callee_id
      then dot_edge caller_id callee_id [(''label'', ''calls''), (''color'', ''purple'')] b
      else b)"

text \<open>
  Lines 385 to 421: one entry of \<^verbatim>\<open>calls\<close>. \<^verbatim>\<open>caller_raw.split\<close> raises
  \<^verbatim>\<open>AttributeError\<close> when the key is \<^verbatim>\<open>None\<close>.
\<close>

definition add_caller ::
  "code_structure \<Rightarrow> string option \<times> string list \<Rightarrow> builder \<Rightarrow> py_exception + builder" where
  "add_caller s entry b =
     (case fst entry of
        None \<Rightarrow> Inl AttributeError
      | Some caller_raw \<Rightarrow>
          (let caller_id = caller_id_of (module_name s) caller_raw;
               (caller_id, b) =
                 (if caller_id \<notin> all_nodes b
                  then (if Some caller_raw = module_name s
                           \<and> ''module_'' @ fmt (module_name s) \<in> all_nodes b
                        then (''module_'' @ fmt (module_name s), b)
                        else (caller_id,
                              all_nodes_add caller_id
                                (dot_node caller_id caller_raw
                                   [(''shape'', ''box''), (''style'', ''dashed''),
                                    (''color'', ''red''), (''fillcolor'', ''white'')] b)))
                  else (caller_id, b))
           in Inr (fold (add_call_edge s caller_id) (snd entry) b)))"

text \<open>Lines 424 to 431: the inheritance edges of one class.\<close>

definition add_base :: "string option \<Rightarrow> string \<Rightarrow> string \<Rightarrow> builder \<Rightarrow> builder" where
  "add_base mn class_id base b =
     (let base_id = ''module_'' @ fmt mn @ ''.'' @ base;
          b = (if base_id \<notin> all_nodes b
               then all_nodes_add base_id
                      (dot_node base_id base
                         [(''shape'', ''box''), (''style'', ''dashed''), (''color'', ''grey''),
                          (''fillcolor'', ''white'')] b)
               else b)
      in dot_edge base_id class_id
           [(''style'', ''dashed''), (''arrowhead'', ''empty''), (''label'', ''inherits'')] b)"

definition add_inheritance :: "string option \<Rightarrow> class_info \<Rightarrow> builder \<Rightarrow> builder" where
  "add_inheritance mn cls b =
     fold (add_base mn (''module_'' @ fmt mn @ ''.'' @ c_name cls)) (c_bases cls) b"

text \<open>Lines 312 to 431: the whole graph of a structure.\<close>

definition empty_builder :: builder where
  "empty_builder = \<lparr> dot_nodes = [], dot_edges = [], all_nodes = {} \<rparr>"

definition declare_nodes :: "code_structure \<Rightarrow> builder" where
  "declare_nodes s =
     (let b = add_module s empty_builder;
          b = fold (add_function (module_id_of (module_name s))) (functions s) b
      in fold (add_class (module_id_of (module_name s))) (classes s) b)"

definition build_graph :: "code_structure \<Rightarrow> py_exception + builder" where
  "build_graph s =
     (let b = declare_nodes s;
          b = add_callee_nodes s b
      in case foldM (add_caller s) (calls s) b of
           Inl e \<Rightarrow> Inl e
         | Inr b \<Rightarrow> Inr (fold (add_inheritance (module_name s)) (classes s) b))"

text \<open>
  \<^verbatim>\<open>dot.render(os.path.splitext(output_filepath)[0], format=format, ...)\<close> belongs to
  the graphviz library and the layout engine: \<open>render\<close> stands for it, with the three
  ways it ends.
\<close>

datatype render_result =
    Rendered string
  | ExecutableNotFound
  | RenderException string

text \<open>
  The result is the pair the function returns; \<open>Inl\<close> is an exception that leaves the
  function, which the code before the \<^verbatim>\<open>try\<close> can raise.
\<close>

definition generate_graph_visualization ::
  "(digraph \<Rightarrow> string \<Rightarrow> string \<Rightarrow> render_result) \<Rightarrow> code_structure option \<Rightarrow> string \<Rightarrow> string
   \<Rightarrow> py_exception + (string option \<times> string)" where
  "generate_graph_visualization render s output_filepath format =
     (case s of
        None \<Rightarrow> Inr (None, ''No graph can be generated.'')
      | Some s \<Rightarrow>
          (case build_graph s of
             Inl e \<Rightarrow> Inl e
           | Inr b \<Rightarrow>
               (case render (digraph.truncate b) output_filepath format of
                  Rendered full_output_path \<Rightarrow>
                    Inr (Some full_output_path,
                         ''Visualization graph saved to: '' @ full_output_path)
                | ExecutableNotFound \<Rightarrow>
                    Inr (None, ''Error: Graphviz executable (dot) not found. Please ensure ''
                               @ ''Graphviz is installed and added to your system'' @ squote @ ''s PATH.'')
                | RenderException m \<Rightarrow> Inr (None, ''Error generating graph: '' @ m))))"

section \<open>Vocabulary of the properties\<close>

text \<open>An edge is an inheritance edge when its label says so.\<close>

definition is_inherits :: "attrs \<Rightarrow> bool" where
  "is_inherits a = (map_of a ''label'' = Some ''inherits'')"

text \<open>No edge other than an inheritance edge joins a node to itself.\<close>

definition loop_free :: "builder \<Rightarrow> bool" where
  "loop_free b = (\<forall>(t, h, a) \<in> set (dot_edges b). \<not> is_inherits a \<longrightarrow> t \<noteq> h)"

text \<open>The edge statement of line 431 for one base of a class.\<close>

definition inherits_edge :: "string option \<Rightarrow> string \<Rightarrow> string \<Rightarrow> string \<times> string \<times> attrs" where
  "inherits_edge mn base class_name =
     (''module_'' @ fmt mn @ ''.'' @ base, ''module_'' @ fmt mn @ ''.'' @ class_name,
      [(''style'', ''dashed''), (''arrowhead'', ''empty''), (''label'', ''inherits'')])"

text \<open>
  The declared entities of a structure, each by its path of names: the module, the
  global-variables group, a global function or a class, and an attribute or a method of
  a class. \<open>declared_entities\<close> lists them in the order in which the builder makes their
  nodes, and \<open>entity_id\<close> is the dotted path under the module node.
\<close>

datatype entity = ModuleEntity | GlobalsEntity | TopLevel string | Member string string

definition class_entities :: "class_info \<Rightarrow> entity list" where
  "class_entities cls =
     TopLevel (c_name cls)
     # map (\<lambda>attr. Member (c_name cls) (v_name attr)) (c_attributes cls)
     @ map (\<lambda>method. Member (c_name cls) (f_name method)) (c_methods cls)"

definition declared_entities :: "code_structure \<Rightarrow> entity list" where
  "declared_entities s =
     ModuleEntity
     # (if global_variables s \<noteq> [] then [GlobalsEntity] else [])
     @ map (\<lambda>func. TopLevel (f_name func)) (functions s)
     @ concat (map class_entities (classes s))"

fun entity_id :: "string option \<Rightarrow> entity \<Rightarrow> string" where
  "entity_id mn ModuleEntity = module_id_of mn"
| "entity_id mn GlobalsEntity = module_id_of mn @ ''_globals''"
| "entity_id mn (TopLevel name) = module_id_of mn @ ''.'' @ name"
| "entity_id mn (Member class_name name) = module_id_of mn @ ''.'' @ class_name @ ''.'' @ name"

text \<open>Names of global functions and classes are identifiers: they hold no dot.\<close>

definition names_dot_free :: "code_structure \<Rightarrow> bool" where
  "names_dot_free s =
     ((\<forall>func \<in> set (functions s). CHR ''.'' \<notin> set (f_name func))
      \<and> (\<forall>cls \<in> set (classes s). CHR ''.'' \<notin> set (c_name cls)))"

definition dot_free_entity :: "entity \<Rightarrow> bool" where
  "dot_free_entity e =
     (case e of TopLevel name \<Rightarrow> CHR ''.'' \<notin> set name
      | Member class_name name \<Rightarrow> CHR ''.'' \<notin> set class_name
      | _ \<Rightarrow> True)"

fun entity_suffix :: "entity \<Rightarrow> string" where
  "entity_suffix ModuleEntity = []"
| "entity_suffix GlobalsEntity = ''_globals''"
| "entity_suffix (TopLevel name) = ''.'' @ name"
| "entity_suffix (Member class_name name) = ''.'' @ class_name @ ''.'' @ name"

abbreviation node_ids :: "builder \<Rightarrow> string list" where
  "node_ids b \<equiv> map fst (dot_nodes b)"


text \<open>Every key of \<^verbatim>\<open>calls\<close> is a string, none is \<^verbatim>\<open>None\<close>.\<close>

definition string_keyed :: "'a code_structure_scheme \<Rightarrow> bool" where
  "string_keyed s = (None \<notin> fst ` set (calls s))"

text \<open>
  The function definitions of a visit, from its list of enclosed nodes. \<open>regs\<close> is the
  list of the names of the classes registered so far: a class definition adds its name.
  A function definition gives one entry, its function record with its owner: the
  innermost enclosing name when there is one and it is the name of a class registered so
  far, and no owner otherwise.
\<close>

definition site :: "string list \<Rightarrow> string list \<times> node \<Rightarrow> (string option \<times> func_info) list" where
  "site regs e =
     (case snd e of
        FunctionDef name a body decorator_list returns doc \<Rightarrow>
          (case make_func_info name a decorator_list returns doc of
             Inl err \<Rightarrow> []
           | Inr func_info \<Rightarrow>
               [(if fst e \<noteq> [] \<and> last (fst e) \<in> set regs then Some (last (fst e)) else None,
                 func_info)])
      | _ \<Rightarrow> [])"

definition regs_after :: "string list \<Rightarrow> string list \<times> node \<Rightarrow> string list" where
  "regs_after regs e =
     (case snd e of
        ClassDef name bases keywords body decorator_list doc \<Rightarrow> regs @ [name]
      | _ \<Rightarrow> regs)"

fun definition_sites ::
  "string list \<Rightarrow> (string list \<times> node) list \<Rightarrow> (string option \<times> func_info) list" where
  "definition_sites regs [] = []"
| "definition_sites regs (e # es) = site regs e @ definition_sites (regs_after regs e) es"

text \<open>The function records of one owner, in order.\<close>

definition owned :: "string option \<Rightarrow> (string option \<times> func_info) list \<Rightarrow> func_info list" where
  "owned owner sites = map snd (filter (\<lambda>p. fst p = owner) sites)"

text \<open>The method list of the first class record of a name; empty when there is none.\<close>

definition methods_of :: "string \<Rightarrow> class_info list \<Rightarrow> func_info list" where
  "methods_of A cs = (case find (\<lambda>c. c_name c = A) cs of None \<Rightarrow> [] | Some c \<Rightarrow> c_methods c)"

text \<open>A class record whose name an earlier record (or \<open>seen\<close>) has holds no method.\<close>

fun later_empty :: "string list \<Rightarrow> class_info list \<Rightarrow> bool" where
  "later_empty seen [] = True"
| "later_empty seen (c # cs) =
     ((c_name c \<in> set seen \<longrightarrow> c_methods c = []) \<and> later_empty (c_name c # seen) cs)"

text \<open>
  The names of the function definitions whose innermost enclosing name is \<open>A\<close>, in
  source order.
\<close>

definition function_names_enclosed_by :: "string \<Rightarrow> (string list \<times> node) list \<Rightarrow> string list"
  where
  "function_names_enclosed_by A es =
     concat
       (map (\<lambda>e. case snd e of
                   FunctionDef name a body decorator_list returns doc \<Rightarrow>
                     if fst e \<noteq> [] \<and> last (fst e) = A then [name] else []
                 | _ \<Rightarrow> [])
          es)"

definition is_function_def :: "node \<Rightarrow> bool" where
  "is_function_def n = (case n of FunctionDef _ _ _ _ _ _ \<Rightarrow> True | _ \<Rightarrow> False)"

abbreviation class_names :: "'a code_structure_scheme \<Rightarrow> string list" where
  "class_names st \<equiv> map c_name (classes st)"

section \<open>Properties of the name resolver\<close>

lemma get_full_name_chain:
  "get_full_name (foldl Attribute base members) =
     get_full_name base @ concat (map (\<lambda>m. ''.'' @ m) members)"
  by (induction members arbitrary: base) simp_all

lemma resolve_depth_pos: "0 < resolve_depth n"
  by (cases n) simp_all

lemma get_full_name_within_depth:
  "get_full_name_within k n =
     (if resolve_depth n \<le> k then Inr (get_full_name n) else Inl RecursionError)"
  by (induction k n rule: get_full_name_within.induct) (simp_all add: resolve_depth_pos)

lemma resolve_depth_chain:
  "resolve_depth (foldl Attribute base members) = resolve_depth base + length members"
  by (induction members arbitrary: base) simp_all

text \<open>
  C8, as the code has it. The resolver reads nothing but the node, and its result
  depends on nothing else as long as it returns: with \<open>k\<close> nested calls still allowed
  by the interpreter's recursion limit, it returns \<open>get_full_name n\<close> exactly when the
  chain of attribute accesses and calls at the head of \<open>n\<close> is at most \<open>k\<close> nodes
  deep, and raises \<^verbatim>\<open>RecursionError\<close> otherwise. Where it returns, a bare
  identifier resolves to its text; an attribute access to the resolution of its base, a
  dot and the member name, so that a chain \<open>ident.m1. ... .mj\<close> of fewer than \<open>k\<close>
  members resolves to \<open>ident\<close> followed by \<open>.m1\<close> ... \<open>.mj\<close>, while a chain of \<open>k\<close>
  members or more raises; a call resolves to the resolution of its callee followed by
  \<open>(...)\<close>; a node of any other kind to the one token \<open><?>\<close>. An exception raised
  while the base or the callee is resolved leaves the resolver unchanged.
\<close>

theorem get_full_name_within_resolves:
  "(resolve_depth n \<le> k \<longrightarrow> get_full_name_within k n = Inr (get_full_name n))
   \<and> (k < resolve_depth n \<longrightarrow> get_full_name_within k n = Inl RecursionError)
   \<and> get_full_name_within (Suc k) (Name ident) = Inr ident
   \<and> get_full_name_within (Suc k) (Attribute base member) =
       map_sum id (\<lambda>s. s @ ''.'' @ member) (get_full_name_within k base)
   \<and> get_full_name_within (Suc k) (Call callee as ks) =
       map_sum id (\<lambda>s. s @ ''(...)'') (get_full_name_within k callee)
   \<and> (other_kind n \<longrightarrow> get_full_name_within (Suc k) n = Inr ''<?>'')
   \<and> (length members < k \<longrightarrow>
        get_full_name_within k (foldl Attribute (Name ident) members) =
          Inr (ident @ concat (map (\<lambda>m. ''.'' @ m) members)))
   \<and> (k \<le> length members \<longrightarrow>
        get_full_name_within k (foldl Attribute (Name ident) members) = Inl RecursionError)"
proof -
  have attr: "get_full_name_within (Suc k) (Attribute base member) =
       map_sum id (\<lambda>s. s @ ''.'' @ member) (get_full_name_within k base)"
    by (cases "get_full_name_within k base") simp_all
  have call: "get_full_name_within (Suc k) (Call callee as ks) =
       map_sum id (\<lambda>s. s @ ''(...)'') (get_full_name_within k callee)"
    by (cases "get_full_name_within k callee") simp_all
  have other: "other_kind n \<longrightarrow> get_full_name_within (Suc k) n = Inr ''<?>''"
    by (cases n) (simp_all add: other_kind_def)
  show ?thesis
    using attr call other
    by (simp add: get_full_name_within_depth resolve_depth_chain get_full_name_chain)
qed

theorem get_full_name_within_resolves_witness:
  "resolve_depth (Call (Attribute (Name ''self'') ''other'') [] []) \<le> 3
   \<and> get_full_name_within 3 (Call (Attribute (Name ''self'') ''other'') [] []) =
       Inr ''self.other(...)''
   \<and> 2 < resolve_depth (Call (Attribute (Name ''self'') ''other'') [] [])
   \<and> get_full_name_within 2 (Call (Attribute (Name ''self'') ''other'') [] []) =
       Inl RecursionError
   \<and> other_kind (Other [Name ''a''])
   \<and> get_full_name_within (Suc 0) (Other [Name ''a'']) = Inr ''<?>''
   \<and> get_full_name_within 4 (foldl Attribute (Name ''a'') [''b'', ''c'', ''d'']) =
       Inr ''a.b.c.d''
   \<and> get_full_name_within 3 (foldl Attribute (Name ''a'') [''b'', ''c'', ''d'']) =
       Inl RecursionError"
  using get_full_name_within_resolves
          [where n = "Call (Attribute (Name ''self'') ''other'') [] []" and k = 3
             and ident = "''a''" and base = "Name ''a''" and member = "''b''"
             and callee = "Name ''f''" and as = "[]" and ks = "[]"
             and members = "[''b'', ''c'', ''d'']"]
        get_full_name_within_resolves
          [where n = "Call (Attribute (Name ''self'') ''other'') [] []" and k = 2
             and ident = "''a''" and base = "Name ''a''" and member = "''b''"
             and callee = "Name ''f''" and as = "[]" and ks = "[]"
             and members = "[''b'', ''c'', ''d'']"]
        get_full_name_within_resolves
          [where n = "Other [Name ''a'']" and k = 0
             and ident = "''a''" and base = "Name ''a''" and member = "''b''"
             and callee = "Name ''f''" and as = "[]" and ks = "[]"
             and members = "[''b'', ''c'', ''d'']"]
        get_full_name_within_resolves
          [where n = "Name ''a''" and k = 4
             and ident = "''a''" and base = "Name ''a''" and member = "''b''"
             and callee = "Name ''f''" and as = "[]" and ks = "[]"
             and members = "[''b'', ''c'', ''d'']"]
  by (simp add: other_kind_def eval_nat_numeral)

text \<open>
  C8, as stated, fails: the resolver is not total and the depth of a chain is not
  arbitrary. Under the default recursion limit of 1000 frames no more than 1000 nested
  calls of the resolver are possible; on \<open>a.b.b. ... .b\<close> with 1200 members, an
  expression that \<^verbatim>\<open>ast.parse\<close> accepts, the resolver raises \<^verbatim>\<open>RecursionError\<close> and
  returns no text.
\<close>

theorem deep_chain_raises_counterexample:
  "get_full_name_within 1000 (foldl Attribute (Name ''a'') (replicate 1200 ''b'')) =
     Inl RecursionError"
  by (simp add: get_full_name_within_depth resolve_depth_chain)

section \<open>Properties of \<^verbatim>\<open>parse_python_file\<close>\<close>

text \<open>
  C1. The claim is that the module name of the returned structure is the base name of
  the file without its extension. For the file \<open>/p/foo.py\<close> holding \<^verbatim>\<open>pass\<close> that
  name is \<open>foo\<close>, and line 197 stores it; the visit of the tree then runs
  \<^verbatim>\<open>visit_Module\<close>, which stores \<open>Module\<close> over it, and the structure is returned with
  the module name \<open>Module\<close>.
\<close>

theorem parse_python_file_module_name_overwritten:
  "remove_all ''.py'' (basename ''/p/foo.py'') = ''foo''
   \<and> fst (parse_python_file
        \<lparr> path_exists = (\<lambda>p. True),
          read_file = (\<lambda>p. Inr ''pass''),
          ast_parse = (\<lambda>src. Inr (Module [Other []])) \<rparr>
        ''/p/foo.py'')
     = (Some \<lparr> module_name = Some ''Module'', global_variables = [], classes = [],
               functions = [], imports_direct = [], imports_from = [], calls = [] \<rparr>,
        None)"
  by (simp add: parse_python_file_def init_extractor_def basename_def code_structure.truncate_def)

text \<open>
  C6. For a path that does not exist, \<^verbatim>\<open>parse_python_file\<close> returns no structure and
  a message that contains the path and the words \<open>does not exist\<close>; the only outside
  call it has made is the existence test, so the file was neither read nor parsed.
\<close>

theorem parse_python_file_not_found:
  "\<not> path_exists e filepath \<Longrightarrow>
   \<exists>m. parse_python_file e filepath = ((None, Some m), [PathExists filepath])
       \<and> sublist filepath m \<and> sublist ''does not exist'' m"
proof -
  assume missing: "\<not> path_exists e filepath"
  let ?m = "''Error: File does not exist '' @ squote @ filepath @ squote"
  from missing have "parse_python_file e filepath = ((None, Some ?m), [PathExists filepath])"
    by (simp add: parse_python_file_def)
  moreover have "sublist filepath ?m"
    unfolding sublist_def
    by (intro exI [of _ "''Error: File does not exist '' @ squote"] exI [of _ squote]) simp
  moreover have "sublist ''does not exist'' ?m"
    unfolding sublist_def
    by (intro exI [of _ "''Error: File ''"] exI [of _ "'' '' @ squote @ filepath @ squote"]) simp
  ultimately show ?thesis by blast
qed

theorem parse_python_file_not_found_witness:
  "\<not> path_exists \<lparr> path_exists = (\<lambda>p. p = ''/p/foo.py''), read_file = (\<lambda>p. Inr ''pass''),
                     ast_parse = (\<lambda>src. Inr (Module [Other []])) \<rparr> ''/p/bar.py''
   \<and> (\<exists>m. parse_python_file
             \<lparr> path_exists = (\<lambda>p. p = ''/p/foo.py''), read_file = (\<lambda>p. Inr ''pass''),
               ast_parse = (\<lambda>src. Inr (Module [Other []])) \<rparr> ''/p/bar.py''
           = ((None, Some m), [PathExists ''/p/bar.py''])
          \<and> sublist ''/p/bar.py'' m \<and> sublist ''does not exist'' m)"
  using parse_python_file_not_found
          [of "\<lparr> path_exists = (\<lambda>p. p = ''/p/foo.py''), read_file = (\<lambda>p. Inr ''pass''),
                 ast_parse = (\<lambda>src. Inr (Module [Other []])) \<rparr>" "''/p/bar.py''"]
  by simp

section \<open>Properties of the argument strings\<close>

text \<open>
  C2. The claim is that positional defaults go to the last positional arguments and
  keyword-only defaults to the last keyword-only arguments. For
  \<^verbatim>\<open>def f(a, b=x, *, c, d=y)\<close> that is \<open>a\<close>, \<open>b=x\<close>, \<open>c\<close>, \<open>d=y\<close>. The code
  counts the positional default back from the end of the whole argument list and the
  keyword-only default back from the end of the positional arguments, and gives \<open>a\<close>,
  \<open>b=y\<close>, \<open>c\<close>, \<open>d=x\<close>.
\<close>

theorem function_args_defaults_misplaced:
  "function_args
     (Arguments [] [Arg ''a'' None, Arg ''b'' None] None [Arg ''c'' None, Arg ''d'' None]
        [None, Some (Name ''y'')] None [Name ''x''])
   = Inr [''a'', ''b=y'', ''c'', ''d=x'']"
  by (simp add: function_args_def arg_text_def iadd_at_def py_index_def)

section \<open>Properties of the graph\<close>

lemmas extractor_defs =
  init_extractor_def pop_scope_def function_args_def get_current_scope_id_def
  arguments_children_def arg_children_def opt_list_def make_class_info_def make_func_info_def
  add_func_info_def ann_assign_target_def record_variable_def is_name_or_attribute_def
  arg_text_def iadd_at_def py_index_def import_from_text_def

lemmas builder_defs =
  build_graph_def declare_nodes_def add_module_def add_function_def add_class_def
  add_attribute_def add_method_def add_callee_nodes_def add_callee_node_def add_caller_def
  add_call_edge_def callee_id_of_def caller_id_of_def add_inheritance_def add_base_def
  dot_node_def dot_edge_def all_nodes_add_def empty_builder_def module_id_of_def fmt_def
  signature_label_def newline_def Let_def


lemma loop_free_fold:
  "loop_free b \<Longrightarrow> (\<And>x b. loop_free b \<Longrightarrow> loop_free (f x b)) \<Longrightarrow> loop_free (fold f xs b)"
  by (induction xs arbitrary: b) simp_all

lemma loop_free_foldM:
  "loop_free b \<Longrightarrow> foldM f xs b = Inr b'
   \<Longrightarrow> (\<And>x b b'. loop_free b \<Longrightarrow> f x b = Inr b' \<Longrightarrow> loop_free b') \<Longrightarrow> loop_free b'"
  by (induction xs arbitrary: b) (auto split: sum.splits)

lemma loop_free_dot_node [simp]: "loop_free (dot_node n l a b) = loop_free b"
  by (simp add: loop_free_def dot_node_def)

lemma loop_free_all_nodes_add [simp]: "loop_free (all_nodes_add n b) = loop_free b"
  by (simp add: loop_free_def all_nodes_add_def)

lemma loop_free_dot_edge:
  "loop_free b \<Longrightarrow> is_inherits a \<or> t \<noteq> h \<Longrightarrow> loop_free (dot_edge t h a b)"
  by (auto simp: loop_free_def dot_edge_def)

lemma append_neq_self [simp]: "x @ c # y \<noteq> x"
  by (metis append_self_conv list.distinct(1))

lemma loop_free_add_module: "loop_free b \<Longrightarrow> loop_free (add_module s b)"
  by (simp add: add_module_def Let_def loop_free_dot_edge)

lemma loop_free_add_function: "loop_free b \<Longrightarrow> loop_free (add_function m f b)"
  by (simp add: add_function_def Let_def loop_free_dot_edge)

lemma loop_free_add_attribute: "loop_free b \<Longrightarrow> loop_free (add_attribute c v b)"
  by (simp add: add_attribute_def Let_def loop_free_dot_edge)

lemma loop_free_add_method: "loop_free b \<Longrightarrow> loop_free (add_method c f b)"
  by (simp add: add_method_def Let_def loop_free_dot_edge)

lemma loop_free_add_class: "loop_free b \<Longrightarrow> loop_free (add_class m c b)"
  unfolding add_class_def Let_def
  by (intro loop_free_fold loop_free_add_method loop_free_add_attribute)
     (simp add: loop_free_dot_edge)

lemma loop_free_declare_nodes: "loop_free (declare_nodes s)"
  unfolding declare_nodes_def Let_def
  by (intro loop_free_fold loop_free_add_class loop_free_add_function loop_free_add_module)
     (simp add: loop_free_def empty_builder_def)

lemma loop_free_add_callee_node: "loop_free b \<Longrightarrow> loop_free (add_callee_node c b)"
  by (simp add: add_callee_node_def)

lemma loop_free_add_callee_nodes: "loop_free b \<Longrightarrow> loop_free (add_callee_nodes s b)"
  unfolding add_callee_nodes_def
  by (rule loop_free_fold) (auto intro: loop_free_fold loop_free_add_callee_node)

lemma loop_free_add_call_edge: "loop_free b \<Longrightarrow> loop_free (add_call_edge s c callee b)"
  by (simp add: add_call_edge_def Let_def loop_free_dot_edge)

lemma loop_free_add_caller:
  "loop_free b \<Longrightarrow> add_caller s entry b = Inr b' \<Longrightarrow> loop_free b'"
  unfolding add_caller_def Let_def
  by (auto split: option.splits if_splits intro!: loop_free_fold loop_free_add_call_edge)

lemma loop_free_add_base: "loop_free b \<Longrightarrow> loop_free (add_base mn c base b)"
  by (simp add: add_base_def Let_def loop_free_dot_edge is_inherits_def)

lemma loop_free_add_inheritance: "loop_free b \<Longrightarrow> loop_free (add_inheritance mn cls b)"
  unfolding add_inheritance_def by (intro loop_free_fold loop_free_add_base)

lemma loop_free_build_graph:
  assumes "build_graph s = Inr b"
  shows "loop_free b"
proof -
  from assms obtain b1 where
    b1: "foldM (add_caller s) (calls s) (add_callee_nodes s (declare_nodes s)) = Inr b1"
    and b: "b = fold (add_inheritance (module_name s)) (classes s) b1"
    by (auto simp: build_graph_def Let_def split: sum.splits)
  have "loop_free (add_callee_nodes s (declare_nodes s))"
    by (intro loop_free_add_callee_nodes loop_free_declare_nodes)
  then have "loop_free b1"
    using b1 by (rule loop_free_foldM) (rule loop_free_add_caller)
  then show ?thesis
    unfolding b by (intro loop_free_fold loop_free_add_inheritance)
qed

lemma dot_edges_add_base:
  "dot_edges (add_base mn class_id base b) =
     dot_edges b @ [(''module_'' @ fmt mn @ ''.'' @ base, class_id,
                     [(''style'', ''dashed''), (''arrowhead'', ''empty''), (''label'', ''inherits'')])]"
  by (simp add: add_base_def Let_def dot_edge_def dot_node_def all_nodes_add_def)

lemma dot_edges_fold_add_base:
  "dot_edges (fold (add_base mn class_id) bases b) =
     dot_edges b @ map (\<lambda>base. (''module_'' @ fmt mn @ ''.'' @ base, class_id,
                     [(''style'', ''dashed''), (''arrowhead'', ''empty''), (''label'', ''inherits'')])) bases"
  by (induction bases arbitrary: b) (simp_all only: fold_simps dot_edges_add_base list.map append_Nil2 append_assoc append_Cons append_Nil)

lemma dot_edges_add_inheritance:
  "dot_edges (add_inheritance mn cls b) =
     dot_edges b @ map (\<lambda>base. inherits_edge mn base (c_name cls)) (c_bases cls)"
  by (simp only: add_inheritance_def dot_edges_fold_add_base inherits_edge_def)

lemma dot_edges_fold_add_inheritance:
  "dot_edges (fold (add_inheritance mn) clss b) =
     dot_edges b @ concat (map (\<lambda>cls. map (\<lambda>base. inherits_edge mn base (c_name cls)) (c_bases cls)) clss)"
  by (induction clss arbitrary: b) (simp_all add: dot_edges_add_inheritance)

lemma inherits_edges_build_graph:
  assumes "build_graph s = Inr b" "cls \<in> set (classes s)" "base \<in> set (c_bases cls)"
  shows "inherits_edge (module_name s) base (c_name cls) \<in> set (dot_edges b)"
proof -
  from assms(1) obtain b1 where b: "b = fold (add_inheritance (module_name s)) (classes s) b1"
    by (auto simp: build_graph_def Let_def split: sum.splits)
  have "inherits_edge (module_name s) base (c_name cls)
          \<in> set (map (\<lambda>base. inherits_edge (module_name s) base (c_name cls)) (c_bases cls))"
    using assms(3) by simp
  with assms(2) have "inherits_edge (module_name s) base (c_name cls)
          \<in> set (concat (map (\<lambda>cls. map (\<lambda>base. inherits_edge (module_name s) base (c_name cls))
                                       (c_bases cls)) (classes s)))"
    unfolding set_concat by (intro UN_I [of "map _ (c_bases cls)"]) simp_all
  then show ?thesis
    unfolding b dot_edges_fold_add_inheritance by simp
qed


text \<open>
  C3, as the code has it. In the graph of any structure, an edge that is not an
  inheritance edge (a call edge or one of the containment edges) never joins a node to
  itself: a call whose caller and callee resolve to one node gets no edge. An
  inheritance edge is made for every base of every class, from the base's node to the
  class's node, whatever the two nodes are.
\<close>

theorem build_graph_self_loops:
  assumes "build_graph s = Inr b"
  shows "(\<forall>(t, h, a) \<in> set (dot_edges b). map_of a ''label'' \<noteq> Some ''inherits'' \<longrightarrow> t \<noteq> h)
       \<and> (\<forall>cls \<in> set (classes s). \<forall>base \<in> set (c_bases cls).
             inherits_edge (module_name s) base (c_name cls) \<in> set (dot_edges b))"
  using loop_free_build_graph [OF assms] inherits_edges_build_graph [OF assms]
  by (simp add: loop_free_def is_inherits_def)

theorem build_graph_self_loops_witness:
  "build_graph
     \<lparr> module_name = Some ''Module'', global_variables = [],
       classes = [\<lparr> c_name = ''A'', c_methods = [], c_bases = [''B''],
                    c_docstring = None, c_attributes = [], c_decorators = [] \<rparr>],
       functions = [], imports_direct = [], imports_from = [],
       calls = [(Some ''A'', [''f''])] \<rparr>
   = Inr \<lparr> dot_nodes =
             [(''module_Module'', ''Module: Module'',
               [(''shape'', ''folder''), (''style'', ''filled''), (''fillcolor'', ''#ADD8E6'')]),
              (''module_Module.A'', ''Class: A(B)'',
               [(''shape'', ''component''), (''style'', ''filled''), (''fillcolor'', ''#FFD700'')]),
              (''f'', ''f'',
               [(''shape'', ''box''), (''style'', ''dashed''), (''color'', ''gray''),
                (''fillcolor'', ''white'')]),
              (''module_Module.B'', ''B'',
               [(''shape'', ''box''), (''style'', ''dashed''), (''color'', ''grey''),
                (''fillcolor'', ''white'')])],
           dot_edges =
             [(''module_Module'', ''module_Module.A'', [(''label'', ''contains'')]),
              (''module_Module.A'', ''f'', [(''label'', ''calls''), (''color'', ''purple'')]),
              (''module_Module.B'', ''module_Module.A'',
               [(''style'', ''dashed''), (''arrowhead'', ''empty''), (''label'', ''inherits'')])],
           all_nodes = {''module_Module.B'', ''f'', ''module_Module.A'', ''module_Module''} \<rparr>
   \<and> ''module_Module.A'' \<noteq> ''f''
   \<and> inherits_edge (Some ''Module'') ''B'' ''A'' =
       (''module_Module.B'', ''module_Module.A'',
        [(''style'', ''dashed''), (''arrowhead'', ''empty''), (''label'', ''inherits'')])"
proof -
  let ?s = "\<lparr> module_name = Some ''Module'', global_variables = [],
       classes = [\<lparr> c_name = ''A'', c_methods = [], c_bases = [''B''],
                    c_docstring = None, c_attributes = [], c_decorators = [] \<rparr>],
       functions = [], imports_direct = [], imports_from = [],
       calls = [(Some ''A'', [''f''])] \<rparr>"
  let ?b = "\<lparr> dot_nodes =
             [(''module_Module'', ''Module: Module'',
               [(''shape'', ''folder''), (''style'', ''filled''), (''fillcolor'', ''#ADD8E6'')]),
              (''module_Module.A'', ''Class: A(B)'',
               [(''shape'', ''component''), (''style'', ''filled''), (''fillcolor'', ''#FFD700'')]),
              (''f'', ''f'',
               [(''shape'', ''box''), (''style'', ''dashed''), (''color'', ''gray''),
                (''fillcolor'', ''white'')]),
              (''module_Module.B'', ''B'',
               [(''shape'', ''box''), (''style'', ''dashed''), (''color'', ''grey''),
                (''fillcolor'', ''white'')])],
           dot_edges =
             [(''module_Module'', ''module_Module.A'', [(''label'', ''contains'')]),
              (''module_Module.A'', ''f'', [(''label'', ''calls''), (''color'', ''purple'')]),
              (''module_Module.B'', ''module_Module.A'',
               [(''style'', ''dashed''), (''arrowhead'', ''empty''), (''label'', ''inherits'')])],
           all_nodes = {''module_Module.B'', ''f'', ''module_Module.A'', ''module_Module''} \<rparr>"
  have built: "build_graph ?s = Inr ?b"
    by (simp add: builder_defs)
  from build_graph_self_loops [OF built] built show ?thesis
    by (simp add: inherits_edge_def)
qed


text \<open>
  C3, as stated, fails for inheritance edges: \<^verbatim>\<open>class A(A): pass\<close> is extracted as a
  class \<open>A\<close> with the base \<open>A\<close>, and the graph has the inheritance edge from the node
  of \<open>A\<close> to itself.
\<close>

theorem inherits_self_loop_counterexample:
  "visit (Module [ClassDef ''A'' [Name ''A''] [] [Other []] [] None]) init_extractor =
     Inr \<lparr> module_name = Some ''Module'', global_variables = [],
           classes = [\<lparr> c_name = ''A'', c_methods = [], c_bases = [''A''],
                        c_docstring = None, c_attributes = [], c_decorators = [] \<rparr>],
           functions = [], imports_direct = [], imports_from = [], calls = [],
           current_scope = [] \<rparr>
   \<and> map_sum id dot_edges
        (build_graph
           \<lparr> module_name = Some ''Module'', global_variables = [],
             classes = [\<lparr> c_name = ''A'', c_methods = [], c_bases = [''A''],
                          c_docstring = None, c_attributes = [], c_decorators = [] \<rparr>],
             functions = [], imports_direct = [], imports_from = [], calls = [] \<rparr>) =
       Inr [(''module_Module'', ''module_Module.A'', [(''label'', ''contains'')]),
            (''module_Module.A'', ''module_Module.A'',
             [(''style'', ''dashed''), (''arrowhead'', ''empty''), (''label'', ''inherits'')])]"
  by (simp add: builder_defs extractor_defs)


text \<open>
  C7. The claim is that a call recorded under a caller no node stands for still gets
  its edge, from a placeholder node, also when the scope id has more than three parts.
  For a call of \<open>x\<close> in \<open>h\<close>, nested in \<open>g\<close>, in the method \<open>f\<close> of the class
  \<open>A\<close>, the scope id is \<open>A.f.g.h\<close>; lines 389 to 394 have no case for four parts and
  leave the caller's node name empty, a node of that empty name is made, and line 420
  then refuses the edge: the graph has the containment edges only.
\<close>

theorem deep_caller_edge_dropped:
  "visit
     (Module
        [ClassDef ''A'' [] []
           [FunctionDef ''f'' (Arguments [] [] None [] [] None [])
              [FunctionDef ''g'' (Arguments [] [] None [] [] None [])
                 [FunctionDef ''h'' (Arguments [] [] None [] [] None [])
                    [Other [Call (Name ''x'') [] []]] [] None None]
                 [] None None]
              [] None None]
           [] None])
     init_extractor =
     Inr \<lparr> module_name = Some ''Module'', global_variables = [],
           classes =
             [\<lparr> c_name = ''A'',
                 c_methods = [\<lparr> f_name = ''f'', f_args = [], f_docstring = None,
                                f_return_annotation = [], f_decorators = [],
                                f_calls_made = [] \<rparr>],
                 c_bases = [], c_docstring = None, c_attributes = [], c_decorators = [] \<rparr>],
           functions =
             [\<lparr> f_name = ''g'', f_args = [], f_docstring = None, f_return_annotation = [],
                 f_decorators = [], f_calls_made = [] \<rparr>,
              \<lparr> f_name = ''h'', f_args = [], f_docstring = None, f_return_annotation = [],
                 f_decorators = [], f_calls_made = [] \<rparr>],
           imports_direct = [], imports_from = [],
           calls = [(Some ''A.f.g.h'', [''x''])], current_scope = [] \<rparr>
   \<and> map_sum id (\<lambda>b. (map fst (dot_nodes b), dot_edges b))
        (build_graph
           \<lparr> module_name = Some ''Module'', global_variables = [],
             classes =
               [\<lparr> c_name = ''A'',
                   c_methods = [\<lparr> f_name = ''f'', f_args = [], f_docstring = None,
                                  f_return_annotation = [], f_decorators = [],
                                  f_calls_made = [] \<rparr>],
                   c_bases = [], c_docstring = None, c_attributes = [], c_decorators = [] \<rparr>],
             functions =
               [\<lparr> f_name = ''g'', f_args = [], f_docstring = None, f_return_annotation = [],
                   f_decorators = [], f_calls_made = [] \<rparr>,
                \<lparr> f_name = ''h'', f_args = [], f_docstring = None, f_return_annotation = [],
                   f_decorators = [], f_calls_made = [] \<rparr>],
             imports_direct = [], imports_from = [],
             calls = [(Some ''A.f.g.h'', [''x''])] \<rparr>) =
       Inr ([''module_Module'', ''module_Module.g'', ''module_Module.h'', ''module_Module.A'',
             ''module_Module.A.f'', ''x'', ''''],
            [(''module_Module'', ''module_Module.g'', [(''label'', ''contains'')]),
             (''module_Module'', ''module_Module.h'', [(''label'', ''contains'')]),
             (''module_Module'', ''module_Module.A'', [(''label'', ''contains'')]),
             (''module_Module.A'', ''module_Module.A.f'', [(''label'', ''contains method'')])])"
  by (simp add: builder_defs extractor_defs)

section \<open>Properties of the node identities\<close>


lemma node_ids_fold_add_function:
  "node_ids (fold (add_function m) fs b) = node_ids b @ map (\<lambda>func. m @ ''.'' @ f_name func) fs"
  by (induction fs arbitrary: b)
     (simp_all add: add_function_def Let_def dot_node_def dot_edge_def all_nodes_add_def)

lemma node_ids_fold_add_attribute:
  "node_ids (fold (add_attribute c) as b) = node_ids b @ map (\<lambda>attr. c @ ''.'' @ v_name attr) as"
  by (induction as arbitrary: b)
     (simp_all add: add_attribute_def Let_def dot_node_def dot_edge_def all_nodes_add_def)

lemma node_ids_fold_add_method:
  "node_ids (fold (add_method c) ms b) = node_ids b @ map (\<lambda>method. c @ ''.'' @ f_name method) ms"
  by (induction ms arbitrary: b)
     (simp_all add: add_method_def Let_def dot_node_def dot_edge_def all_nodes_add_def)

lemma node_ids_add_class:
  "node_ids (add_class (module_id_of mn) cls b) =
     node_ids b @ map (entity_id mn) (class_entities cls)"
  by (simp add: add_class_def Let_def node_ids_fold_add_method node_ids_fold_add_attribute
                dot_node_def dot_edge_def all_nodes_add_def class_entities_def o_def)

lemma node_ids_fold_add_class:
  "node_ids (fold (add_class (module_id_of mn)) clss b) =
     node_ids b @ map (entity_id mn) (concat (map class_entities clss))"
  by (induction clss arbitrary: b) (simp_all only: fold_simps node_ids_add_class list.map concat.simps map_append append_assoc append_Nil2)

lemma node_ids_declare_nodes:
  "node_ids (declare_nodes s) = map (entity_id (module_name s)) (declared_entities s)"
  by (simp add: declare_nodes_def Let_def node_ids_fold_add_class
                node_ids_fold_add_function add_module_def dot_node_def dot_edge_def
                all_nodes_add_def empty_builder_def declared_entities_def o_def)

lemma dot_free_declared:
  "names_dot_free s \<Longrightarrow> e \<in> set (declared_entities s) \<Longrightarrow> dot_free_entity e"
  by (auto simp: names_dot_free_def declared_entities_def class_entities_def dot_free_entity_def
           split: if_splits)

lemma split_at_first:
  "c \<notin> set x \<Longrightarrow> c \<notin> set x' \<Longrightarrow> x @ c # y = x' @ c # y' \<Longrightarrow> x = x' \<and> y = y'"
proof (induction x arbitrary: x')
  case Nil
  then show ?case by (cases x') auto
next
  case (Cons a x)
  then show ?case by (cases x') auto
qed

lemma entity_id_suffix: "entity_id mn e = module_id_of mn @ entity_suffix e"
  by (cases e) simp_all

lemma entity_suffix_inject:
  assumes "dot_free_entity x" "dot_free_entity y" "entity_suffix x = entity_suffix y"
  shows "x = y"
proof (cases x)
  case ModuleEntity
  with assms(3) show ?thesis by (cases y) simp_all
next
  case GlobalsEntity
  with assms(3) show ?thesis by (cases y) simp_all
next
  case x: (TopLevel n)
  show ?thesis
  proof (cases y)
    case (Member c m)
    with x assms(3) have "n = c @ CHR ''.'' # m" by simp
    with x assms(1) show ?thesis by (simp add: dot_free_entity_def)
  qed (use x assms(3) in simp_all)
next
  case x: (Member c m)
  show ?thesis
  proof (cases y)
    case (TopLevel n)
    with x assms(3) have "n = c @ CHR ''.'' # m" by simp
    with TopLevel assms(2) show ?thesis by (simp add: dot_free_entity_def)
  next
    case (Member c' m')
    with x assms(3) have "c @ CHR ''.'' # m = c' @ CHR ''.'' # m'" by simp
    moreover from x Member assms(1,2) have "CHR ''.'' \<notin> set c" "CHR ''.'' \<notin> set c'"
      by (simp_all add: dot_free_entity_def)
    ultimately have "c = c' \<and> m = m'" by (intro split_at_first)
    with x Member show ?thesis by simp
  qed (use x assms(3) in simp_all)
qed

lemma entity_id_inject:
  "dot_free_entity x \<Longrightarrow> dot_free_entity y \<Longrightarrow> entity_id mn x = entity_id mn y \<Longrightarrow> x = y"
  by (simp only: entity_id_suffix same_append_eq) (rule entity_suffix_inject)


text \<open>
  C4, as the code has it. The node of a declared entity is named by the entity's path
  of names under the module node, whatever kind the entity is. When the names of the
  global functions and classes hold no dot, two entities have the same node name only
  if they are the same path; so the module, the global-variables group and entities of
  different paths never share a node name, and declarations of one path do.
\<close>

theorem node_identity_is_name_path:
  "map fst (dot_nodes (declare_nodes s)) = map (entity_id (module_name s)) (declared_entities s)
   \<and> (names_dot_free s \<longrightarrow> inj_on (entity_id (module_name s)) (set (declared_entities s)))"
proof (intro conjI impI inj_onI)
  show "map fst (dot_nodes (declare_nodes s)) =
          map (entity_id (module_name s)) (declared_entities s)"
    by (rule node_ids_declare_nodes)
next
  fix x y
  assume "names_dot_free s" "x \<in> set (declared_entities s)" "y \<in> set (declared_entities s)"
    and eq: "entity_id (module_name s) x = entity_id (module_name s) y"
  then have "dot_free_entity x" "dot_free_entity y"
    by (auto dest: dot_free_declared)
  then show "x = y" using eq by (rule entity_id_inject)
qed


theorem node_identity_is_name_path_witness:
  "names_dot_free
     \<lparr> module_name = Some ''Module'',
       global_variables = [\<lparr> v_name = ''g'', v_annotation = None, v_value = Some ''<?>'' \<rparr>],
       classes =
         [\<lparr> c_name = ''A'',
             c_methods = [\<lparr> f_name = ''m'', f_args = [''self''], f_docstring = None,
                            f_return_annotation = [], f_decorators = [], f_calls_made = [] \<rparr>],
             c_bases = [], c_docstring = None,
             c_attributes = [\<lparr> v_name = ''x'', v_annotation = None, v_value = Some ''<?>'' \<rparr>],
             c_decorators = [] \<rparr>],
       functions = [\<lparr> f_name = ''f'', f_args = [], f_docstring = None, f_return_annotation = [],
                      f_decorators = [], f_calls_made = [] \<rparr>],
       imports_direct = [], imports_from = [], calls = [] \<rparr>
   \<and> inj_on (entity_id (Some ''Module''))
        {ModuleEntity, GlobalsEntity, TopLevel ''f'', TopLevel ''A'', Member ''A'' ''x'',
         Member ''A'' ''m''}
   \<and> map fst
        (dot_nodes
           (declare_nodes
              \<lparr> module_name = Some ''Module'',
                global_variables = [\<lparr> v_name = ''g'', v_annotation = None, v_value = Some ''<?>'' \<rparr>],
                classes =
                  [\<lparr> c_name = ''A'',
                      c_methods = [\<lparr> f_name = ''m'', f_args = [''self''], f_docstring = None,
                                     f_return_annotation = [], f_decorators = [], f_calls_made = [] \<rparr>],
                      c_bases = [], c_docstring = None,
                      c_attributes = [\<lparr> v_name = ''x'', v_annotation = None, v_value = Some ''<?>'' \<rparr>],
                      c_decorators = [] \<rparr>],
                functions = [\<lparr> f_name = ''f'', f_args = [], f_docstring = None, f_return_annotation = [],
                               f_decorators = [], f_calls_made = [] \<rparr>],
                imports_direct = [], imports_from = [], calls = [] \<rparr>)) =
       [''module_Module'', ''module_Module_globals'', ''module_Module.f'', ''module_Module.A'',
        ''module_Module.A.x'', ''module_Module.A.m'']"
proof -
  let ?s = "\<lparr> module_name = Some ''Module'',
       global_variables = [\<lparr> v_name = ''g'', v_annotation = None, v_value = Some ''<?>'' \<rparr>],
       classes =
         [\<lparr> c_name = ''A'',
             c_methods = [\<lparr> f_name = ''m'', f_args = [''self''], f_docstring = None,
                            f_return_annotation = [], f_decorators = [], f_calls_made = [] \<rparr>],
             c_bases = [], c_docstring = None,
             c_attributes = [\<lparr> v_name = ''x'', v_annotation = None, v_value = Some ''<?>'' \<rparr>],
             c_decorators = [] \<rparr>],
       functions = [\<lparr> f_name = ''f'', f_args = [], f_docstring = None, f_return_annotation = [],
                      f_decorators = [], f_calls_made = [] \<rparr>],
       imports_direct = [], imports_from = [], calls = [] \<rparr>"
  have free: "names_dot_free ?s"
    by (simp add: names_dot_free_def)
  have ents: "set (declared_entities ?s) =
      {ModuleEntity, GlobalsEntity, TopLevel ''f'', TopLevel ''A'', Member ''A'' ''x'',
       Member ''A'' ''m''}"
    by (simp add: declared_entities_def class_entities_def)
  have ids: "map (entity_id (module_name ?s)) (declared_entities ?s) =
      [''module_Module'', ''module_Module_globals'', ''module_Module.f'', ''module_Module.A'',
        ''module_Module.A.x'', ''module_Module.A.m'']"
    by (simp add: declared_entities_def class_entities_def module_id_of_def fmt_def)
  from node_identity_is_name_path [of ?s] free ents ids show ?thesis
    by simp
qed

text \<open>
  C4, as stated, fails: a file that defines \<open>f\<close> twice is extracted as two global
  functions, and the nodes made for them have the same name.
\<close>

theorem same_name_nodes_collide_counterexample:
  "visit
     (Module
        [FunctionDef ''f'' (Arguments [] [] None [] [] None []) [Other []] [] None None,
         FunctionDef ''f'' (Arguments [] [] None [] [] None []) [Other []] [] None None])
     init_extractor =
     Inr \<lparr> module_name = Some ''Module'', global_variables = [], classes = [],
           functions =
             [\<lparr> f_name = ''f'', f_args = [], f_docstring = None, f_return_annotation = [],
                 f_decorators = [], f_calls_made = [] \<rparr>,
              \<lparr> f_name = ''f'', f_args = [], f_docstring = None, f_return_annotation = [],
                 f_decorators = [], f_calls_made = [] \<rparr>],
           imports_direct = [], imports_from = [], calls = [], current_scope = [] \<rparr>
   \<and> map fst
        (dot_nodes
           (declare_nodes
              \<lparr> module_name = Some ''Module'', global_variables = [], classes = [],
                functions =
                  [\<lparr> f_name = ''f'', f_args = [], f_docstring = None, f_return_annotation = [],
                      f_decorators = [], f_calls_made = [] \<rparr>,
                   \<lparr> f_name = ''f'', f_args = [], f_docstring = None, f_return_annotation = [],
                      f_decorators = [], f_calls_made = [] \<rparr>],
                imports_direct = [], imports_from = [], calls = [] \<rparr>)) =
       [''module_Module'', ''module_Module.f'', ''module_Module.f'']"
  by (simp add: builder_defs extractor_defs)



section \<open>Properties of the visit\<close>

lemma visit_decomp:
  "visit n st =
     (case handle n st of
        Inl e \<Rightarrow> Inl e
      | Inr st1 \<Rightarrow>
          (case foldM visit (child_nodes n) (st1\<lparr>current_scope := current_scope st1 @ pushed n\<rparr>) of
             Inl e \<Rightarrow> Inl e
           | Inr st2 \<Rightarrow> if pushed n = [] then Inr st2 else pop_scope st2))"
  by (cases n) (simp_all add: Let_def split: sum.splits)

lemma foldM_append:
  "foldM f (xs @ ys) s = (case foldM f xs s of Inl e \<Rightarrow> Inl e | Inr s' \<Rightarrow> foldM f ys s')"
  by (induction xs arbitrary: s) (simp_all split: sum.splits)

lemma current_scope_record_variable [simp]:
  "current_scope (record_variable vi st) = current_scope st"
  by (simp add: record_variable_def)

lemma current_scope_assign_targets [simp]:
  "current_scope (assign_targets ts v st) = current_scope st"
  by (induction ts v st rule: assign_targets.induct) simp_all

lemma current_scope_ann_assign_target [simp]:
  "current_scope (ann_assign_target t a v st) = current_scope st"
  by (simp add: ann_assign_target_def split: node.splits)

lemma current_scope_add_func_info [simp]:
  "current_scope (add_func_info fi st) = current_scope st"
  by (simp add: add_func_info_def)

lemma current_scope_handle:
  "handle n st = Inr st' \<Longrightarrow> current_scope st' = current_scope st"
  by (cases n) (auto split: sum.splits)

lemma handle_at_own_scope:
  "handle_at (current_scope st, n) st = handle n st"
proof (cases "handle n st")
  case (Inl e)
  then show ?thesis by (simp add: handle_at_def)
next
  case (Inr st')
  from current_scope_handle [OF this] Inr show ?thesis by (simp add: handle_at_def)
qed

lemma current_scope_handle_at:
  "handle_at e st = Inr st' \<Longrightarrow> current_scope st' = current_scope st"
  by (cases "handle (snd e) (st\<lparr>current_scope := fst e\<rparr>)") (auto simp: handle_at_def)

lemma current_scope_foldM_handle_at:
  "foldM handle_at es st = Inr st' \<Longrightarrow> current_scope st' = current_scope st"
  by (induction es arbitrary: st) (auto split: sum.splits dest: current_scope_handle_at)

lemma handle_at_scope_update:
  "handle_at e (st\<lparr>current_scope := x\<rparr>) =
     map_sum id (\<lambda>st'. st'\<lparr>current_scope := x\<rparr>) (handle_at e st)"
  by (cases "handle (snd e) (st\<lparr>current_scope := fst e\<rparr>)") (simp_all add: handle_at_def)

lemma foldM_handle_at_scope_update:
  "foldM handle_at es (st\<lparr>current_scope := x\<rparr>) =
     map_sum id (\<lambda>st'. st'\<lparr>current_scope := x\<rparr>) (foldM handle_at es st)"
proof (induction es arbitrary: st)
  case Nil
  then show ?case by simp
next
  case (Cons e es)
  show ?case
  proof (cases "handle_at e st")
    case (Inl err)
    then show ?thesis by (simp add: handle_at_scope_update)
  next
    case (Inr st1)
    then show ?thesis by (simp add: handle_at_scope_update Cons.IH)
  qed
qed

lemma foldM_visit_children:
  assumes "\<And>c s. c \<in> set cs \<Longrightarrow> visit c s = foldM handle_at (enclosed_nodes (current_scope s) c) s"
  shows "foldM visit cs st =
           foldM handle_at (concat (map (enclosed_nodes (current_scope st)) cs)) st"
  using assms
proof (induction cs arbitrary: st)
  case Nil
  then show ?case by simp
next
  case (Cons c cs)
  have first: "visit c st = foldM handle_at (enclosed_nodes (current_scope st) c) st"
    by (rule Cons.prems) simp
  show ?case
  proof (cases "visit c st")
    case (Inl e)
    with first have "foldM handle_at (enclosed_nodes (current_scope st) c) st = Inl e"
      by (simp del: enclosed_nodes.simps)
    with Inl show ?thesis by (simp add: foldM_append del: enclosed_nodes.simps)
  next
    case (Inr st1)
    with first have replay: "foldM handle_at (enclosed_nodes (current_scope st) c) st = Inr st1"
      by (simp del: enclosed_nodes.simps)
    then have scope: "current_scope st1 = current_scope st"
      by (rule current_scope_foldM_handle_at)
    have "foldM visit cs st1 =
            foldM handle_at (concat (map (enclosed_nodes (current_scope st1)) cs)) st1"
      by (rule Cons.IH) (simp add: Cons.prems)
    with Inr replay scope show ?thesis
      by (simp add: foldM_append del: enclosed_nodes.simps)
  qed
qed

lemma visit_handlers:
  "visit n st = foldM handle_at (enclosed_nodes (current_scope st) n) st"
proof (induction n arbitrary: st rule: measure_induct_rule [where f = size])
  case (less n)
  show ?case
  proof (cases "handle n st")
    case (Inl e)
    then show ?thesis
      by (subst visit_decomp, subst enclosed_nodes.simps) (simp add: handle_at_own_scope)
  next
    case (Inr st1)
    then have scope1: "current_scope st1 = current_scope st"
      by (rule current_scope_handle)
    let ?sc = "current_scope st @ pushed n"
    let ?es = "concat (map (enclosed_nodes ?sc) (child_nodes n))"
    have children: "foldM visit (child_nodes n) (st1\<lparr>current_scope := ?sc\<rparr>) =
        map_sum id (\<lambda>st'. st'\<lparr>current_scope := ?sc\<rparr>) (foldM handle_at ?es st1)"
      using foldM_visit_children [of "child_nodes n" "st1\<lparr>current_scope := ?sc\<rparr>"]
        less.IH child_nodes_size
      by (simp add: foldM_handle_at_scope_update del: enclosed_nodes.simps)
    have rhs: "foldM handle_at (enclosed_nodes (current_scope st) n) st = foldM handle_at ?es st1"
      by (subst enclosed_nodes.simps) (simp add: handle_at_own_scope Inr del: enclosed_nodes.simps)
    show ?thesis
    proof (cases "foldM handle_at ?es st1")
      case (Inl e)
      with Inr children rhs scope1 show ?thesis
        by (subst visit_decomp) (simp del: enclosed_nodes.simps)
    next
      case res: (Inr st2)
      then have scope2: "current_scope st2 = current_scope st"
        using scope1 by (simp add: current_scope_foldM_handle_at)
      have "(if pushed n = [] then Inr (st2\<lparr>current_scope := ?sc\<rparr>)
             else pop_scope (st2\<lparr>current_scope := ?sc\<rparr>)) = Inr st2"
        using scope2 by (cases n) (simp_all add: pop_scope_def)
      with Inr children rhs scope1 res show ?thesis
        by (subst visit_decomp) (simp del: enclosed_nodes.simps)
    qed
  qed
qed

lemma current_scope_visit:
  "visit n st = Inr st' \<Longrightarrow> current_scope st' = current_scope st"
  by (simp add: visit_handlers current_scope_foldM_handle_at)

lemma current_scope_foldM_visit:
  "foldM visit cs st = Inr st' \<Longrightarrow> current_scope st' = current_scope st"
  by (induction cs arbitrary: st) (auto split: sum.splits dest: current_scope_visit)


text \<open>
  C10. The scope stack is balanced. A visit is the run, in order, of the handler of
  each node of the tree with the stack set to the chain of the names of the class and
  function definitions that enclose the node (a definition hands its own name down to
  its children and to nothing else), so every scope id comes from that chain alone; a
  visit that returns leaves the stack as it found it, and so does the visit of any list
  of nodes, in particular of the statements of a module, where the stack is empty.
\<close>

theorem scope_stack_balanced:
  "visit n st = foldM handle_at (enclosed_nodes (current_scope st) n) st
   \<and> (visit n st = Inr st' \<longrightarrow> current_scope st' = current_scope st)
   \<and> (foldM visit cs st = Inr st'' \<longrightarrow> current_scope st'' = current_scope st)"
  using visit_handlers current_scope_visit current_scope_foldM_visit by blast

theorem scope_stack_balanced_witness:
  "visit
     (Module
        [ClassDef ''A'' [] []
           [FunctionDef ''m'' (Arguments [] [Arg ''self'' None] None [] [] None [])
              [Other [Call (Attribute (Name ''self'') ''other'') [] []]] [] None None]
           [] None,
         Other [Call (Name ''main'') [] []]])
     init_extractor =
     Inr \<lparr> module_name = Some ''Module'', global_variables = [],
           classes =
             [\<lparr> c_name = ''A'',
                 c_methods = [\<lparr> f_name = ''m'', f_args = [''self''], f_docstring = None,
                                f_return_annotation = [], f_decorators = [],
                                f_calls_made = [] \<rparr>],
                 c_bases = [], c_docstring = None, c_attributes = [], c_decorators = [] \<rparr>],
           functions = [], imports_direct = [], imports_from = [],
           calls = [(Some ''A.m'', [''self.other'']), (Some ''Module'', [''main''])],
           current_scope = [] \<rparr>
   \<and> current_scope init_extractor = []
   \<and> map fst
        (enclosed_nodes []
           (Module
              [ClassDef ''A'' [] []
                 [FunctionDef ''m'' (Arguments [] [Arg ''self'' None] None [] [] None [])
                    [Other [Call (Attribute (Name ''self'') ''other'') [] []]] [] None None]
                 [] None,
               Other [Call (Name ''main'') [] []]])) =
       [[], [], [''A''], [''A'', ''m''], [''A'', ''m''], [''A'', ''m''], [''A'', ''m''],
        [], [], []]"
proof -
  let ?t = "Module
        [ClassDef ''A'' [] []
           [FunctionDef ''m'' (Arguments [] [Arg ''self'' None] None [] [] None [])
              [Other [Call (Attribute (Name ''self'') ''other'') [] []]] [] None None]
           [] None,
         Other [Call (Name ''main'') [] []]]"
  let ?r = "\<lparr> module_name = Some ''Module'', global_variables = [],
           classes =
             [\<lparr> c_name = ''A'',
                 c_methods = [\<lparr> f_name = ''m'', f_args = [''self''], f_docstring = None,
                                f_return_annotation = [], f_decorators = [],
                                f_calls_made = [] \<rparr>],
                 c_bases = [], c_docstring = None, c_attributes = [], c_decorators = [] \<rparr>],
           functions = [], imports_direct = [], imports_from = [],
           calls = [(Some ''A.m'', [''self.other'']), (Some ''Module'', [''main''])],
           current_scope = [] \<rparr>"
  have run: "visit ?t init_extractor = Inr ?r"
    by (simp add: extractor_defs)
  have chains: "map fst (enclosed_nodes [] ?t) =
      [[], [], [''A''], [''A'', ''m''], [''A'', ''m''], [''A'', ''m''], [''A'', ''m''],
        [], [], []]"
    by (simp add: enclosed_nodes.simps extractor_defs)
  from scope_stack_balanced [of ?t init_extractor ?r] run chains show ?thesis
    by (simp add: init_extractor_def)
qed

section \<open>Properties of the recorded function definitions\<close>

lemma owned_append [simp]: "owned x (xs @ ys) = owned x xs @ owned x ys"
  by (simp add: owned_def)

lemma owned_Nil [simp]: "owned x [] = []"
  by (simp add: owned_def)

lemma names_append_method [simp]: "map c_name (append_method B fi cs) = map c_name cs"
  by (induction cs) simp_all

lemma names_append_attribute [simp]: "map c_name (append_attribute B vi cs) = map c_name cs"
  by (induction cs) simp_all

lemma methods_of_append_attribute [simp]:
  "methods_of A (append_attribute B vi cs) = methods_of A cs"
  by (induction cs) (simp_all add: methods_of_def)

lemma methods_of_append_method:
  "methods_of A (append_method B fi cs) =
     (if A = B \<and> B \<in> set (map c_name cs) then methods_of A cs @ [fi] else methods_of A cs)"
  by (induction cs) (auto simp: methods_of_def)

lemma methods_of_new_class:
  "c_methods c = [] \<Longrightarrow> methods_of A (cs @ [c]) = methods_of A cs"
  by (induction cs) (simp_all add: methods_of_def)

lemma later_empty_append_method:
  "later_empty seen cs \<Longrightarrow> B \<notin> set seen \<Longrightarrow> later_empty seen (append_method B fi cs)"
  by (induction cs arbitrary: seen) auto

lemma later_empty_append_attribute [simp]:
  "later_empty seen (append_attribute B vi cs) = later_empty seen cs"
  by (induction cs arbitrary: seen) auto

lemma later_empty_new_class:
  "later_empty seen cs \<Longrightarrow> c_methods c = [] \<Longrightarrow> later_empty seen (cs @ [c])"
  by (induction cs arbitrary: seen) auto

lemma later_empty_seen:
  "later_empty seen cs \<Longrightarrow> c \<in> set cs \<Longrightarrow> c_name c \<in> set seen \<Longrightarrow> c_methods c = []"
  by (induction cs arbitrary: seen) auto

lemma later_empty_first:
  "later_empty seen cs \<Longrightarrow> c \<in> set cs \<Longrightarrow>
   c_methods c = [] \<or> find (\<lambda>c'. c_name c' = c_name c) cs = Some c"
proof (induction cs arbitrary: seen)
  case Nil
  then show ?case by simp
next
  case (Cons a cs)
  show ?case
  proof (cases "c_name a = c_name c")
    case same: True
    show ?thesis
    proof (cases "a = c")
      case True
      then show ?thesis by simp
    next
      case False
      with Cons.prems have "c \<in> set cs" "later_empty (c_name a # seen) cs" by simp_all
      with same have "c_methods c = []" by (intro later_empty_seen [of "c_name a # seen" cs]) simp_all
      then show ?thesis by simp
    qed
  next
    case False
    with Cons.prems have "c \<in> set cs" "later_empty (c_name a # seen) cs" by auto
    from Cons.IH [OF this(2,1)] False show ?thesis by simp
  qed
qed

lemma classes_record_variable:
  "class_names (record_variable vi st) = class_names st"
  "functions (record_variable vi st) = functions st"
  "methods_of A (classes (record_variable vi st)) = methods_of A (classes st)"
  "later_empty seen (classes (record_variable vi st)) = later_empty seen (classes st)"
  by (simp_all add: record_variable_def)

lemma classes_assign_targets:
  "class_names (assign_targets ts v st) = class_names st"
  "functions (assign_targets ts v st) = functions st"
  "methods_of A (classes (assign_targets ts v st)) = methods_of A (classes st)"
  "later_empty seen (classes (assign_targets ts v st)) = later_empty seen (classes st)"
  by (induction ts v st rule: assign_targets.induct) (simp_all add: classes_record_variable)

lemma classes_ann_assign_target:
  "class_names (ann_assign_target t a v st) = class_names st"
  "functions (ann_assign_target t a v st) = functions st"
  "methods_of A (classes (ann_assign_target t a v st)) = methods_of A (classes st)"
  "later_empty seen (classes (ann_assign_target t a v st)) = later_empty seen (classes st)"
  by (simp_all add: ann_assign_target_def classes_record_variable split: node.splits)

lemma handle_sites:
  assumes "handle n st = Inr st'"
  shows "class_names st' = regs_after (class_names st) (current_scope st, n)
    \<and> functions st' =
        functions st @ owned None (site (class_names st) (current_scope st, n))
    \<and> methods_of A (classes st') =
        methods_of A (classes st) @ owned (Some A) (site (class_names st) (current_scope st, n))
    \<and> (later_empty [] (classes st) \<longrightarrow> later_empty [] (classes st'))
    \<and> length (site (class_names st) (current_scope st, n)) =
        length (filter is_function_def [n])"
proof (cases n)
  case (ClassDef name bases kws body decorator_list doc)
  with assms show ?thesis
    by (auto simp: site_def regs_after_def is_function_def_def make_class_info_def
          methods_of_new_class later_empty_new_class)
next
  case (FunctionDef name a body decorator_list returns doc)
  with assms obtain fi where fi: "make_func_info name a decorator_list returns doc = Inr fi"
    and st': "st' = add_func_info fi st"
    by (auto split: sum.splits)
  show ?thesis
  proof (cases "current_scope st \<noteq> [] \<and> last (current_scope st) \<in> set (class_names st)")
    case True
    then have "classes st' = append_method (last (current_scope st)) fi (classes st)"
      "functions st' = functions st"
      by (simp_all add: st' add_func_info_def)
    with True fi FunctionDef show ?thesis
      by (auto simp: site_def regs_after_def is_function_def_def owned_def
            methods_of_append_method later_empty_append_method)
  next
    case False
    then have "classes st' = classes st" "functions st' = functions st @ [fi]"
      by (auto simp: st' add_func_info_def)
    with False fi FunctionDef show ?thesis
      by (auto simp: site_def regs_after_def is_function_def_def owned_def)
  qed
next
  case (Assign targets v)
  with assms show ?thesis
    by (auto simp: site_def regs_after_def is_function_def_def classes_assign_targets)
next
  case (AnnAssign target ann v)
  with assms show ?thesis
    by (auto simp: site_def regs_after_def is_function_def_def classes_ann_assign_target)
qed (use assms in \<open>auto simp: site_def regs_after_def is_function_def_def\<close>)

lemma handle_at_sites:
  assumes "handle_at e st = Inr st'"
  shows "class_names st' = regs_after (class_names st) e
    \<and> functions st' = functions st @ owned None (site (class_names st) e)
    \<and> methods_of A (classes st') =
        methods_of A (classes st) @ owned (Some A) (site (class_names st) e)
    \<and> (later_empty [] (classes st) \<longrightarrow> later_empty [] (classes st'))
    \<and> length (site (class_names st) e) = length (filter is_function_def [snd e])"
proof -
  from assms obtain st1 where
    h: "handle (snd e) (st\<lparr>current_scope := fst e\<rparr>) = Inr st1"
    and st': "st' = st1\<lparr>current_scope := current_scope st\<rparr>"
    by (cases "handle (snd e) (st\<lparr>current_scope := fst e\<rparr>)") (auto simp: handle_at_def)
  from handle_sites [OF h, of A] show ?thesis
    by (simp add: st')
qed

lemma foldM_handle_at_sites:
  "foldM handle_at es st = Inr st' \<Longrightarrow>
     functions st' = functions st @ owned None (definition_sites (class_names st) es)
   \<and> methods_of A (classes st') =
       methods_of A (classes st) @ owned (Some A) (definition_sites (class_names st) es)
   \<and> (later_empty [] (classes st) \<longrightarrow> later_empty [] (classes st'))
   \<and> length (definition_sites (class_names st) es) =
       length (filter is_function_def (map snd es))"
proof (induction es arbitrary: st)
  case Nil
  then show ?case by simp
next
  case (Cons e es)
  from Cons.prems obtain st1 where
    step: "handle_at e st = Inr st1" and rest: "foldM handle_at es st1 = Inr st'"
    by (auto split: sum.splits)
  note s = handle_at_sites [OF step, of A]
  note r = Cons.IH [OF rest]
  from s r show ?case by simp
qed

lemma methods_of_find:
  "find (\<lambda>c. c_name c = A) cs = Some c \<Longrightarrow> methods_of A cs = c_methods c"
  by (simp add: methods_of_def)


text \<open>
  C5, as the code has it. After a visit that starts with no class and no function
  recorded: the module-level function list holds, in source order, exactly the function
  definitions without an owner; for every name \<open>A\<close>, the first class record of that
  name holds, in source order, exactly the function definitions owned by \<open>A\<close>, that
  is, those whose innermost enclosing name is \<open>A\<close> and that are visited when a class
  of that name is already registered; any other class record holds no method; and every
  function definition of the tree has exactly one entry, hence is in exactly one list.
\<close>

theorem function_definitions_partitioned:
  assumes "visit tree st = Inr st'" and "classes st = []" and "functions st = []"
  shows "functions st' =
           owned None (definition_sites [] (enclosed_nodes (current_scope st) tree))
       \<and> (\<forall>A c. find (\<lambda>c. c_name c = A) (classes st') = Some c \<longrightarrow>
             c_methods c =
               owned (Some A) (definition_sites [] (enclosed_nodes (current_scope st) tree)))
       \<and> (\<forall>c \<in> set (classes st').
             c_methods c = [] \<or> find (\<lambda>c'. c_name c' = c_name c) (classes st') = Some c)
       \<and> length (definition_sites [] (enclosed_nodes (current_scope st) tree)) =
           length (filter is_function_def (map snd (enclosed_nodes (current_scope st) tree)))"
proof -
  let ?es = "enclosed_nodes (current_scope st) tree"
  from assms(1) have replay: "foldM handle_at ?es st = Inr st'"
    by (simp add: visit_handlers)
  note facts = foldM_handle_at_sites [OF replay]
  have funs: "functions st' = owned None (definition_sites [] ?es)"
    using facts [of undefined] assms(2,3) by simp
  have meths: "methods_of A (classes st') = owned (Some A) (definition_sites [] ?es)" for A
    using facts [of A] assms(2) by (simp add: methods_of_def)
  have later: "later_empty [] (classes st')"
    using facts [of undefined] assms(2) by simp
  have count: "length (definition_sites [] ?es) = length (filter is_function_def (map snd ?es))"
    using facts [of undefined] assms(2) by simp
  have first: "c_methods c = owned (Some A) (definition_sites [] ?es)"
    if "find (\<lambda>c. c_name c = A) (classes st') = Some c" for A c
    using meths [of A] methods_of_find [OF that] by simp
  have others: "c_methods c = [] \<or> find (\<lambda>c'. c_name c' = c_name c) (classes st') = Some c"
    if "c \<in> set (classes st')" for c
    using later that by (rule later_empty_first)
  from funs first others count show ?thesis by blast
qed

theorem function_definitions_partitioned_witness:
  "visit
     (Module
        [ClassDef ''A'' [] []
           [FunctionDef ''m1'' (Arguments [] [] None [] [] None []) [Other []] [] None None,
            FunctionDef ''m2'' (Arguments [] [] None [] [] None [])
              [FunctionDef ''helper'' (Arguments [] [] None [] [] None []) [Other []] []
                 None None]
              [] None None]
           [] None,
         FunctionDef ''f'' (Arguments [] [] None [] [] None []) [Other []] [] None None])
     init_extractor =
     Inr \<lparr> module_name = Some ''Module'', global_variables = [],
           classes =
             [\<lparr> c_name = ''A'',
                 c_methods =
                   [\<lparr> f_name = ''m1'', f_args = [], f_docstring = None,
                       f_return_annotation = [], f_decorators = [], f_calls_made = [] \<rparr>,
                    \<lparr> f_name = ''m2'', f_args = [], f_docstring = None,
                       f_return_annotation = [], f_decorators = [], f_calls_made = [] \<rparr>],
                 c_bases = [], c_docstring = None, c_attributes = [], c_decorators = [] \<rparr>],
           functions =
             [\<lparr> f_name = ''helper'', f_args = [], f_docstring = None,
                 f_return_annotation = [], f_decorators = [], f_calls_made = [] \<rparr>,
              \<lparr> f_name = ''f'', f_args = [], f_docstring = None,
                 f_return_annotation = [], f_decorators = [], f_calls_made = [] \<rparr>],
           imports_direct = [], imports_from = [], calls = [], current_scope = [] \<rparr>
   \<and> classes init_extractor = [] \<and> functions init_extractor = []
   \<and> map (\<lambda>p. (fst p, f_name (snd p)))
        (definition_sites []
           (enclosed_nodes []
              (Module
                 [ClassDef ''A'' [] []
                    [FunctionDef ''m1'' (Arguments [] [] None [] [] None []) [Other []] []
                       None None,
                     FunctionDef ''m2'' (Arguments [] [] None [] [] None [])
                       [FunctionDef ''helper'' (Arguments [] [] None [] [] None [])
                          [Other []] [] None None]
                       [] None None]
                    [] None,
                  FunctionDef ''f'' (Arguments [] [] None [] [] None []) [Other []] [] None
                    None]))) =
       [(Some ''A'', ''m1''), (Some ''A'', ''m2''), (None, ''helper''), (None, ''f'')]"
proof -
  let ?t = "Module
        [ClassDef ''A'' [] []
           [FunctionDef ''m1'' (Arguments [] [] None [] [] None []) [Other []] [] None None,
            FunctionDef ''m2'' (Arguments [] [] None [] [] None [])
              [FunctionDef ''helper'' (Arguments [] [] None [] [] None []) [Other []] []
                 None None]
              [] None None]
           [] None,
         FunctionDef ''f'' (Arguments [] [] None [] [] None []) [Other []] [] None None]"
  let ?r = "\<lparr> module_name = Some ''Module'', global_variables = [],
           classes =
             [\<lparr> c_name = ''A'',
                 c_methods =
                   [\<lparr> f_name = ''m1'', f_args = [], f_docstring = None,
                       f_return_annotation = [], f_decorators = [], f_calls_made = [] \<rparr>,
                    \<lparr> f_name = ''m2'', f_args = [], f_docstring = None,
                       f_return_annotation = [], f_decorators = [], f_calls_made = [] \<rparr>],
                 c_bases = [], c_docstring = None, c_attributes = [], c_decorators = [] \<rparr>],
           functions =
             [\<lparr> f_name = ''helper'', f_args = [], f_docstring = None,
                 f_return_annotation = [], f_decorators = [], f_calls_made = [] \<rparr>,
              \<lparr> f_name = ''f'', f_args = [], f_docstring = None,
                 f_return_annotation = [], f_decorators = [], f_calls_made = [] \<rparr>],
           imports_direct = [], imports_from = [], calls = [], current_scope = [] \<rparr>"
  have run: "visit ?t init_extractor = Inr ?r"
    by (simp add: extractor_defs)
  have empty: "classes init_extractor = []" "functions init_extractor = []"
    by (simp_all add: init_extractor_def)
  have sites: "map (\<lambda>p. (fst p, f_name (snd p))) (definition_sites [] (enclosed_nodes [] ?t)) =
      [(Some ''A'', ''m1''), (Some ''A'', ''m2''), (None, ''helper''), (None, ''f'')]"
    by (simp add: enclosed_nodes.simps extractor_defs site_def regs_after_def)
  from function_definitions_partitioned [OF run empty] run empty sites show ?thesis
    by simp
qed


text \<open>
  C5, as stated, fails: in a module that defines a function \<open>A\<close> with a nested
  function \<open>g\<close> and, after it, a class \<open>A\<close>, the function definitions whose
  innermost enclosing name is \<open>A\<close> are \<open>g\<close> alone and a class \<open>A\<close> is registered
  during the extraction, yet that class has no method and \<open>g\<close> is in the module-level
  function list.
\<close>

theorem late_class_gets_no_method_counterexample:
  "visit
     (Module
        [FunctionDef ''A'' (Arguments [] [] None [] [] None [])
           [FunctionDef ''g'' (Arguments [] [] None [] [] None []) [Other []] [] None None]
           [] None None,
         ClassDef ''A'' [] [] [Other []] [] None])
     init_extractor =
     Inr \<lparr> module_name = Some ''Module'', global_variables = [],
           classes =
             [\<lparr> c_name = ''A'', c_methods = [], c_bases = [], c_docstring = None,
                 c_attributes = [], c_decorators = [] \<rparr>],
           functions =
             [\<lparr> f_name = ''A'', f_args = [], f_docstring = None,
                 f_return_annotation = [], f_decorators = [], f_calls_made = [] \<rparr>,
              \<lparr> f_name = ''g'', f_args = [], f_docstring = None,
                 f_return_annotation = [], f_decorators = [], f_calls_made = [] \<rparr>],
           imports_direct = [], imports_from = [], calls = [], current_scope = [] \<rparr>
   \<and> function_names_enclosed_by ''A''
        (enclosed_nodes []
           (Module
              [FunctionDef ''A'' (Arguments [] [] None [] [] None [])
                 [FunctionDef ''g'' (Arguments [] [] None [] [] None []) [Other []] [] None
                    None]
                 [] None None,
               ClassDef ''A'' [] [] [Other []] [] None])) =
       [''g'']"
  by (simp add: enclosed_nodes.simps extractor_defs function_names_enclosed_by_def)

section \<open>Properties of the error handling\<close>

lemma keys_add_call: "fst ` set (add_call k v cs) = insert k (fst ` set cs)"
  by (induction k v cs rule: add_call.induct) auto

lemma module_name_record_variable [simp]:
  "module_name (record_variable vi st) = module_name st"
  by (simp add: record_variable_def)

lemma calls_record_variable [simp]: "calls (record_variable vi st) = calls st"
  by (simp add: record_variable_def)

lemma module_name_assign_targets [simp]:
  "module_name (assign_targets ts v st) = module_name st"
  by (induction ts v st rule: assign_targets.induct) simp_all

lemma calls_assign_targets [simp]: "calls (assign_targets ts v st) = calls st"
  by (induction ts v st rule: assign_targets.induct) simp_all

lemma module_name_ann_assign_target [simp]:
  "module_name (ann_assign_target t a v st) = module_name st"
  by (simp add: ann_assign_target_def split: node.splits)

lemma calls_ann_assign_target [simp]: "calls (ann_assign_target t a v st) = calls st"
  by (simp add: ann_assign_target_def split: node.splits)

lemma module_name_add_func_info [simp]: "module_name (add_func_info fi st) = module_name st"
  by (simp add: add_func_info_def)

lemma calls_add_func_info [simp]: "calls (add_func_info fi st) = calls st"
  by (simp add: add_func_info_def)

lemma scope_id_not_None:
  "module_name st \<noteq> None \<Longrightarrow> get_current_scope_id st \<noteq> None"
  by (simp add: get_current_scope_id_def)

lemma string_keyed_add_call:
  "string_keyed (st\<lparr>calls := add_call k v (calls st)\<rparr>) = (k \<noteq> None \<and> string_keyed st)"
  by (cases k) (auto simp: string_keyed_def keys_add_call)

lemma string_keyed_handle:
  assumes "handle n st = Inr st'" "module_name st \<noteq> None" "string_keyed st"
  shows "module_name st' \<noteq> None \<and> string_keyed st'"
proof -
  from assms(2) obtain k where k: "get_current_scope_id st = Some k"
    using scope_id_not_None [of st] by auto
  show ?thesis
  proof (cases n)
    case (FunctionDef name a body decorator_list returns doc)
    with assms obtain fi where "st' = add_func_info fi st"
      by (auto split: sum.splits)
    with assms show ?thesis by (simp add: string_keyed_def)
  next
    case (Call func as ks)
    with assms k show ?thesis by (auto simp: string_keyed_add_call)
  next
    case (If test body orelse)
    with assms k show ?thesis by (auto simp: string_keyed_add_call)
  next
    case (For target iter body orelse)
    with assms k show ?thesis by (auto simp: string_keyed_add_call)
  next
    case (While test body orelse)
    with assms k show ?thesis by (auto simp: string_keyed_add_call)
  qed (use assms in \<open>auto simp: string_keyed_def\<close>)
qed

lemma string_keyed_handle_at:
  assumes "handle_at e st = Inr st'" "module_name st \<noteq> None" "string_keyed st"
  shows "module_name st' \<noteq> None \<and> string_keyed st'"
proof -
  from assms(1) obtain st1 where
    h: "handle (snd e) (st\<lparr>current_scope := fst e\<rparr>) = Inr st1"
    and st': "st' = st1\<lparr>current_scope := current_scope st\<rparr>"
    by (cases "handle (snd e) (st\<lparr>current_scope := fst e\<rparr>)") (auto simp: handle_at_def)
  from assms(2,3) have "module_name (st\<lparr>current_scope := fst e\<rparr>) \<noteq> None"
    "string_keyed (st\<lparr>current_scope := fst e\<rparr>)"
    by (simp_all add: string_keyed_def)
  from string_keyed_handle [OF h this] show ?thesis
    by (simp add: st' string_keyed_def)
qed

lemma string_keyed_foldM_handle_at:
  "foldM handle_at es st = Inr st' \<Longrightarrow> module_name st \<noteq> None \<Longrightarrow> string_keyed st
   \<Longrightarrow> module_name st' \<noteq> None \<and> string_keyed st'"
proof (induction es arbitrary: st)
  case Nil
  then show ?case by simp
next
  case (Cons e es)
  from Cons.prems(1) obtain st1 where
    step: "handle_at e st = Inr st1" and rest: "foldM handle_at es st1 = Inr st'"
    by (auto split: sum.splits)
  from string_keyed_handle_at [OF step Cons.prems(2,3)]
  have "module_name st1 \<noteq> None" "string_keyed st1" by simp_all
  with rest show ?case by (rule Cons.IH)
qed

lemma string_keyed_visit:
  "visit n st = Inr st' \<Longrightarrow> module_name st \<noteq> None \<Longrightarrow> string_keyed st
   \<Longrightarrow> string_keyed st'"
  using string_keyed_foldM_handle_at [of "enclosed_nodes (current_scope st) n" st st']
  by (simp add: visit_handlers)

lemma parse_python_file_cases:
  "(\<exists>s. fst (parse_python_file e filepath) = (Some s, None) \<and> string_keyed s)
   \<or> (\<exists>m. fst (parse_python_file e filepath) = (None, Some m) \<and> m \<noteq> [])"
proof (cases "path_exists e filepath")
  case False
  then show ?thesis by (simp add: parse_python_file_def)
next
  case True
  show ?thesis
  proof (cases "read_file e filepath")
    case (Inl err)
    with True show ?thesis by (simp add: parse_python_file_def)
  next
    case (Inr source_code)
    let ?st0 = "init_extractor\<lparr>module_name := Some (remove_all ''.py'' (basename filepath))\<rparr>"
    show ?thesis
    proof (cases "ast_parse e source_code")
      case (Inl err)
      with True Inr show ?thesis
        by (cases err) (simp_all add: parse_python_file_def)
    next
      case tree: (Inr tree)
      show ?thesis
      proof (cases "visit tree ?st0")
        case (Inl err)
        with True Inr tree show ?thesis
          by (cases err) (simp_all add: parse_python_file_def)
      next
        case res: (Inr st')
        have "string_keyed ?st0" "module_name ?st0 \<noteq> None"
          by (simp_all add: string_keyed_def init_extractor_def)
        with res have "string_keyed st'" by (intro string_keyed_visit [OF res])
        then have "string_keyed (code_structure.truncate st')"
          by (simp add: string_keyed_def code_structure.truncate_def)
        with True Inr tree res show ?thesis
          by (simp add: parse_python_file_def)
      qed
    qed
  qed
qed

lemma add_caller_succeeds:
  "fst entry \<noteq> None \<Longrightarrow> \<exists>b'. add_caller s entry b = Inr b'"
  by (cases "fst entry") (simp_all add: add_caller_def Let_def split: prod.splits)

lemma foldM_add_caller_succeeds:
  "None \<notin> fst ` set es \<Longrightarrow> \<exists>b'. foldM (add_caller s) es b = Inr b'"
proof (induction es arbitrary: b)
  case Nil
  then show ?case by simp
next
  case (Cons entry es)
  then have "fst entry \<noteq> None" by auto
  then obtain b1 where "add_caller s entry b = Inr b1"
    using add_caller_succeeds by blast
  moreover from Cons have "\<exists>b'. foldM (add_caller s) es b1 = Inr b'" by simp
  ultimately show ?case by simp
qed

lemma build_graph_succeeds: "string_keyed s \<Longrightarrow> \<exists>b. build_graph s = Inr b"
proof -
  assume "string_keyed s"
  then obtain b where
    "foldM (add_caller s) (calls s) (add_callee_nodes s (declare_nodes s)) = Inr b"
    using foldM_add_caller_succeeds [of "calls s" s] by (auto simp: string_keyed_def)
  then show ?thesis by (simp add: build_graph_def Let_def)
qed

lemma generate_graph_visualization_cases:
  assumes "case s of None \<Rightarrow> True | Some s' \<Rightarrow> string_keyed s'"
  shows "(\<exists>p. generate_graph_visualization render s output_filepath format =
              Inr (Some p, ''Visualization graph saved to: '' @ p))
       \<or> (\<exists>m. generate_graph_visualization render s output_filepath format = Inr (None, m)
              \<and> m \<noteq> [])"
proof (cases s)
  case None
  then show ?thesis by (simp add: generate_graph_visualization_def)
next
  case (Some s')
  with assms obtain b where b: "build_graph s' = Inr b"
    using build_graph_succeeds by auto
  show ?thesis
    by (cases "render (digraph.truncate b) output_filepath format")
       (simp_all add: generate_graph_visualization_def Some b)
qed


lemma sublist_last_part: "sublist x (a @ x)"
  unfolding sublist_def by (intro exI [of _ a] exI [of _ "[]"]) simp

lemma parse_python_file_success:
  assumes "fst (parse_python_file e filepath) = (Some s, None)"
  shows "path_exists e filepath
       \<and> (\<exists>source_code tree st'.
             read_file e filepath = Inr source_code
           \<and> ast_parse e source_code = Inr tree
           \<and> visit tree
                (init_extractor\<lparr>module_name := Some (remove_all ''.py'' (basename filepath))\<rparr>)
               = Inr st'
           \<and> s = code_structure.truncate st')"
  using assms
  by (auto simp: parse_python_file_def Let_def split: if_splits sum.splits py_exception.splits)

lemma parse_python_file_read_failure:
  assumes "path_exists e filepath" "read_file e filepath = Inl err"
  shows "\<exists>m. fst (parse_python_file e filepath) = (None, Some m) \<and> sublist err m"
proof -
  let ?m = "''Error: Could not read file '' @ squote @ filepath @ squote @ '': '' @ err"
  from assms have "fst (parse_python_file e filepath) = (None, Some ?m)"
    by (simp add: parse_python_file_def)
  moreover have "sublist err ?m"
    using sublist_last_part [of err "''Error: Could not read file '' @ squote @ filepath @ squote @ '': ''"]
    by simp
  ultimately show ?thesis by blast
qed

lemma exception_message:
  "\<exists>m. (case x of
          SyntaxError t \<Rightarrow>
            ''Parsing error: File '' @ squote @ filepath @ squote
              @ '' contains syntax error: '' @ t
        | _ \<Rightarrow> ''An unknown error occurred during parsing: '' @ exception_text x) = m
       \<and> sublist (exception_text x) m"
proof (cases x)
  case (SyntaxError t)
  have "sublist t ((''Parsing error: File '' @ squote @ filepath @ squote
                     @ '' contains syntax error: '') @ t)"
    by (rule sublist_last_part)
  with SyntaxError show ?thesis by simp
next
  case IndexError
  have "sublist (exception_text x)
          (''An unknown error occurred during parsing: '' @ exception_text x)"
    by (rule sublist_last_part)
  with IndexError show ?thesis by simp
next
  case AttributeError
  have "sublist (exception_text x)
          (''An unknown error occurred during parsing: '' @ exception_text x)"
    by (rule sublist_last_part)
  with AttributeError show ?thesis by simp
next
  case RecursionError
  have "sublist (exception_text x)
          (''An unknown error occurred during parsing: '' @ exception_text x)"
    by (rule sublist_last_part)
  with RecursionError show ?thesis by simp
next
  case (OtherException t)
  have "sublist (exception_text x)
          (''An unknown error occurred during parsing: '' @ exception_text x)"
    by (rule sublist_last_part)
  with OtherException show ?thesis by simp
qed

lemma parse_python_file_parse_failure:
  assumes "path_exists e filepath" "read_file e filepath = Inr source_code"
    and "ast_parse e source_code = Inl x"
  shows "\<exists>m. fst (parse_python_file e filepath) = (None, Some m)
             \<and> sublist (exception_text x) m"
proof -
  from exception_message [of x filepath] obtain m where
    m: "(case x of
          SyntaxError t \<Rightarrow>
            ''Parsing error: File '' @ squote @ filepath @ squote
              @ '' contains syntax error: '' @ t
        | _ \<Rightarrow> ''An unknown error occurred during parsing: '' @ exception_text x) = m"
    and sub: "sublist (exception_text x) m"
    by blast
  from assms m have "fst (parse_python_file e filepath) = (None, Some m)"
    by (cases x) (simp_all add: parse_python_file_def)
  with sub show ?thesis by blast
qed

lemma parse_python_file_visit_failure:
  assumes "path_exists e filepath" "read_file e filepath = Inr source_code"
    and "ast_parse e source_code = Inr tree"
    and "visit tree
           (init_extractor\<lparr>module_name := Some (remove_all ''.py'' (basename filepath))\<rparr>)
         = Inl x"
  shows "\<exists>m. fst (parse_python_file e filepath) = (None, Some m)
             \<and> sublist (exception_text x) m"
proof -
  from exception_message [of x filepath] obtain m where
    m: "(case x of
          SyntaxError t \<Rightarrow>
            ''Parsing error: File '' @ squote @ filepath @ squote
              @ '' contains syntax error: '' @ t
        | _ \<Rightarrow> ''An unknown error occurred during parsing: '' @ exception_text x) = m"
    and sub: "sublist (exception_text x) m"
    by blast
  from assms m have "fst (parse_python_file e filepath) = (None, Some m)"
    by (cases x) (simp_all add: parse_python_file_def)
  with sub show ?thesis by blast
qed

lemma generate_graph_visualization_success:
  assumes "generate_graph_visualization render g output_filepath format = Inr (Some p, msg)"
  shows "\<exists>s' b. g = Some s' \<and> build_graph s' = Inr b
             \<and> render (digraph.truncate b) output_filepath format = Rendered p
             \<and> msg = ''Visualization graph saved to: '' @ p"
  using assms
  by (auto simp: generate_graph_visualization_def
           split: option.splits sum.splits render_result.splits)

lemma generate_graph_visualization_render_failure:
  assumes "build_graph s' = Inr b"
    and "render (digraph.truncate b) output_filepath format = RenderException x"
  shows "\<exists>m. generate_graph_visualization render (Some s') output_filepath format =
               Inr (None, m) \<and> sublist x m"
proof -
  from assms have "generate_graph_visualization render (Some s') output_filepath format =
      Inr (None, ''Error generating graph: '' @ x)"
    by (simp add: generate_graph_visualization_def)
  moreover have "sublist x (''Error generating graph: '' @ x)"
    by (rule sublist_last_part)
  ultimately show ?thesis by blast
qed

lemma generate_graph_visualization_no_engine:
  assumes "build_graph s' = Inr b"
    and "render (digraph.truncate b) output_filepath format = ExecutableNotFound"
  shows "\<exists>m. generate_graph_visualization render (Some s') output_filepath format =
               Inr (None, m) \<and> sublist ''Graphviz executable (dot) not found'' m"
proof -
  let ?m = "''Error: Graphviz executable (dot) not found. Please ensure ''
            @ ''Graphviz is installed and added to your system'' @ squote @ ''s PATH.''"
  from assms have "generate_graph_visualization render (Some s') output_filepath format =
      Inr (None, ?m)"
    by (simp add: generate_graph_visualization_def)
  moreover have "sublist ''Graphviz executable (dot) not found'' ?m"
    unfolding sublist_def
    by (intro exI [of _ "''Error: ''"]
              exI [of _ "''. Please ensure Graphviz is installed and added to your system''
                         @ squote @ ''s PATH.''"]) simp
  ultimately show ?thesis by blast
qed

text \<open>
  C9, as the code has it. \<^verbatim>\<open>parse_python_file\<close> raises nothing, whatever the file
  system and the parser do. It returns a structure with no message, or no structure
  with a message that is not empty, and nothing else. A structure is returned only when
  the file exists, was read and parsed and the visit of the tree returned, and it is
  then the whole structure the visit ended with, every key of \<^verbatim>\<open>calls\<close> in it a
  string. No structure is returned, and the message holds the path, when the file does
  not exist; it holds the text of the exception when reading the file, parsing the
  source or visiting the tree raises one. Where the file exists, is read and parsed and
  the visit as modelled ends with an extractor, that extractor's structure is returned;
  the interpreter's recursion limit, which the modelled visit does not count, can put
  in its place only no structure and the message of \<^verbatim>\<open>RecursionError\<close>, the visit
  being inside the \<^verbatim>\<open>try\<close>.

  \<^verbatim>\<open>generate_graph_visualization\<close> raises nothing when it is given nothing, or a
  structure whose \<^verbatim>\<open>calls\<close> keys are all strings: the graph of such a structure is
  always built, and the function returns the path with the notice that the graph was
  saved, or no path with a message that is not empty. Given nothing, the message is that
  no graph can be generated. A path is returned exactly when the graph of the whole
  structure was built and the renderer, called on that graph, returned that path; no
  path is returned, and the message names the missing executable or holds the text of
  the renderer's exception, when the renderer fails. An exception raised while the
  graph is built, before the \<^verbatim>\<open>try\<close>, leaves the function.
\<close>

theorem no_exception_propagates:
  "((\<exists>s. fst (parse_python_file e filepath) = (Some s, None) \<and> string_keyed s)
     \<or> (\<exists>m. fst (parse_python_file e filepath) = (None, Some m) \<and> m \<noteq> []))
   \<and> (fst (parse_python_file e filepath) = (Some s, None) \<longrightarrow>
        path_exists e filepath
        \<and> (\<exists>source_code tree st'.
              read_file e filepath = Inr source_code
            \<and> ast_parse e source_code = Inr tree
            \<and> visit tree
                 (init_extractor
                    \<lparr>module_name := Some (remove_all ''.py'' (basename filepath))\<rparr>)
                = Inr st'
            \<and> s = code_structure.truncate st'))
   \<and> (\<not> path_exists e filepath \<longrightarrow>
        (\<exists>m. fst (parse_python_file e filepath) = (None, Some m) \<and> sublist filepath m))
   \<and> (path_exists e filepath \<and> read_file e filepath = Inl err \<longrightarrow>
        (\<exists>m. fst (parse_python_file e filepath) = (None, Some m) \<and> sublist err m))
   \<and> (path_exists e filepath \<and> read_file e filepath = Inr source_code
        \<and> ast_parse e source_code = Inl x \<longrightarrow>
        (\<exists>m. fst (parse_python_file e filepath) = (None, Some m)
             \<and> sublist (exception_text x) m))
   \<and> (path_exists e filepath \<and> read_file e filepath = Inr source_code
        \<and> ast_parse e source_code = Inr tree
        \<and> visit tree
             (init_extractor\<lparr>module_name := Some (remove_all ''.py'' (basename filepath))\<rparr>)
            = Inl x \<longrightarrow>
        (\<exists>m. fst (parse_python_file e filepath) = (None, Some m)
             \<and> sublist (exception_text x) m))
   \<and> (path_exists e filepath \<and> read_file e filepath = Inr source_code
        \<and> ast_parse e source_code = Inr tree
        \<and> visit tree
             (init_extractor\<lparr>module_name := Some (remove_all ''.py'' (basename filepath))\<rparr>)
            = Inr st \<longrightarrow>
        fst (parse_python_file e filepath) = (Some (code_structure.truncate st), None)
        \<or> (\<exists>m. fst (parse_python_file e filepath) = (None, Some m)
              \<and> sublist (exception_text RecursionError) m))
   \<and> ((case g of None \<Rightarrow> True | Some s' \<Rightarrow> string_keyed s') \<longrightarrow>
        (\<exists>p. generate_graph_visualization render g output_filepath format =
              Inr (Some p, ''Visualization graph saved to: '' @ p))
        \<or> (\<exists>m. generate_graph_visualization render g output_filepath format = Inr (None, m)
              \<and> m \<noteq> []))
   \<and> (string_keyed s' \<longrightarrow> (\<exists>b'. build_graph s' = Inr b'))
   \<and> (build_graph s' = Inl x \<longrightarrow>
        generate_graph_visualization render (Some s') output_filepath format = Inl x)
   \<and> (build_graph s' = Inr b
        \<and> render (digraph.truncate b) output_filepath format = Rendered p \<longrightarrow>
        generate_graph_visualization render (Some s') output_filepath format =
          Inr (Some p, ''Visualization graph saved to: '' @ p))
   \<and> (generate_graph_visualization render g output_filepath format = Inr (Some p, msg) \<longrightarrow>
        (\<exists>s' b. g = Some s' \<and> build_graph s' = Inr b
             \<and> render (digraph.truncate b) output_filepath format = Rendered p
             \<and> msg = ''Visualization graph saved to: '' @ p))
   \<and> generate_graph_visualization render None output_filepath format =
       Inr (None, ''No graph can be generated.'')
   \<and> (build_graph s' = Inr b
        \<and> render (digraph.truncate b) output_filepath format = ExecutableNotFound \<longrightarrow>
        (\<exists>m. generate_graph_visualization render (Some s') output_filepath format =
               Inr (None, m) \<and> sublist ''Graphviz executable (dot) not found'' m))
   \<and> (build_graph s' = Inr b
        \<and> render (digraph.truncate b) output_filepath format = RenderException t \<longrightarrow>
        (\<exists>m. generate_graph_visualization render (Some s') output_filepath format =
               Inr (None, m) \<and> sublist t m))"
proof -
  have missing: "\<not> path_exists e filepath \<longrightarrow>
        (\<exists>m. fst (parse_python_file e filepath) = (None, Some m) \<and> sublist filepath m)"
  proof
    assume "\<not> path_exists e filepath"
    then have "fst (parse_python_file e filepath) =
        (None, Some ((''Error: File does not exist '' @ squote) @ filepath @ squote))"
      by (simp add: parse_python_file_def)
    moreover have "sublist filepath ((''Error: File does not exist '' @ squote) @ filepath @ squote)"
      by (rule sublist_appendI)
    ultimately show "\<exists>m. fst (parse_python_file e filepath) = (None, Some m) \<and> sublist filepath m"
      by blast
  qed
  show ?thesis
  proof (intro conjI)
    show "(\<exists>s. fst (parse_python_file e filepath) = (Some s, None) \<and> string_keyed s)
        \<or> (\<exists>m. fst (parse_python_file e filepath) = (None, Some m) \<and> m \<noteq> [])"
      by (rule parse_python_file_cases)
  next
    show "fst (parse_python_file e filepath) = (Some s, None) \<longrightarrow>
        path_exists e filepath
        \<and> (\<exists>source_code tree st'.
              read_file e filepath = Inr source_code
            \<and> ast_parse e source_code = Inr tree
            \<and> visit tree
                 (init_extractor
                    \<lparr>module_name := Some (remove_all ''.py'' (basename filepath))\<rparr>)
                = Inr st'
            \<and> s = code_structure.truncate st')"
      by (rule impI) (rule parse_python_file_success)
  next
    show "\<not> path_exists e filepath \<longrightarrow>
        (\<exists>m. fst (parse_python_file e filepath) = (None, Some m) \<and> sublist filepath m)"
      by (rule missing)
  next
    show "path_exists e filepath \<and> read_file e filepath = Inl err \<longrightarrow>
        (\<exists>m. fst (parse_python_file e filepath) = (None, Some m) \<and> sublist err m)"
      using parse_python_file_read_failure [of e filepath err] by (intro impI) (elim conjE)
  next
    show "path_exists e filepath \<and> read_file e filepath = Inr source_code
        \<and> ast_parse e source_code = Inl x \<longrightarrow>
        (\<exists>m. fst (parse_python_file e filepath) = (None, Some m)
             \<and> sublist (exception_text x) m)"
      using parse_python_file_parse_failure [of e filepath source_code x]
      by (intro impI) (elim conjE)
  next
    show "path_exists e filepath \<and> read_file e filepath = Inr source_code
        \<and> ast_parse e source_code = Inr tree
        \<and> visit tree
             (init_extractor\<lparr>module_name := Some (remove_all ''.py'' (basename filepath))\<rparr>)
            = Inl x \<longrightarrow>
        (\<exists>m. fst (parse_python_file e filepath) = (None, Some m)
             \<and> sublist (exception_text x) m)"
      using parse_python_file_visit_failure [of e filepath source_code tree x]
      by (intro impI) (elim conjE)
  next
    show "path_exists e filepath \<and> read_file e filepath = Inr source_code
        \<and> ast_parse e source_code = Inr tree
        \<and> visit tree
             (init_extractor\<lparr>module_name := Some (remove_all ''.py'' (basename filepath))\<rparr>)
            = Inr st \<longrightarrow>
        fst (parse_python_file e filepath) = (Some (code_structure.truncate st), None)
        \<or> (\<exists>m. fst (parse_python_file e filepath) = (None, Some m)
              \<and> sublist (exception_text RecursionError) m)"
      by (simp add: parse_python_file_def)
  next
    show "(case g of None \<Rightarrow> True | Some s' \<Rightarrow> string_keyed s') \<longrightarrow>
        (\<exists>p. generate_graph_visualization render g output_filepath format =
              Inr (Some p, ''Visualization graph saved to: '' @ p))
        \<or> (\<exists>m. generate_graph_visualization render g output_filepath format = Inr (None, m)
              \<and> m \<noteq> [])"
      by (rule impI) (rule generate_graph_visualization_cases)
  next
    show "string_keyed s' \<longrightarrow> (\<exists>b'. build_graph s' = Inr b')"
      by (rule impI) (rule build_graph_succeeds)
  next
    show "build_graph s' = Inl x \<longrightarrow>
        generate_graph_visualization render (Some s') output_filepath format = Inl x"
      by (simp add: generate_graph_visualization_def)
  next
    show "build_graph s' = Inr b
        \<and> render (digraph.truncate b) output_filepath format = Rendered p \<longrightarrow>
        generate_graph_visualization render (Some s') output_filepath format =
          Inr (Some p, ''Visualization graph saved to: '' @ p)"
      by (simp add: generate_graph_visualization_def)
  next
    show "generate_graph_visualization render g output_filepath format = Inr (Some p, msg) \<longrightarrow>
        (\<exists>s' b. g = Some s' \<and> build_graph s' = Inr b
             \<and> render (digraph.truncate b) output_filepath format = Rendered p
             \<and> msg = ''Visualization graph saved to: '' @ p)"
      by (rule impI) (rule generate_graph_visualization_success)
  next
    show "generate_graph_visualization render None output_filepath format =
       Inr (None, ''No graph can be generated.'')"
      by (simp add: generate_graph_visualization_def)
  next
    show "build_graph s' = Inr b
        \<and> render (digraph.truncate b) output_filepath format = ExecutableNotFound \<longrightarrow>
        (\<exists>m. generate_graph_visualization render (Some s') output_filepath format =
               Inr (None, m) \<and> sublist ''Graphviz executable (dot) not found'' m)"
      using generate_graph_visualization_no_engine [of s' b render output_filepath format]
      by (intro impI) (elim conjE)
  next
    show "build_graph s' = Inr b
        \<and> render (digraph.truncate b) output_filepath format = RenderException t \<longrightarrow>
        (\<exists>m. generate_graph_visualization render (Some s') output_filepath format =
               Inr (None, m) \<and> sublist t m)"
      using generate_graph_visualization_render_failure [of s' b render output_filepath format t]
      by (intro impI) (elim conjE)
  qed
qed

theorem no_exception_propagates_witness:
  "fst (parse_python_file
          \<lparr> path_exists = (\<lambda>p. True), read_file = (\<lambda>p. Inr ''main()''),
            ast_parse = (\<lambda>src. Inr (Module [Other [Call (Name ''main'') [] []]])) \<rparr>
          ''/p/foo.py'') =
     (Some \<lparr> module_name = Some ''Module'', global_variables = [], classes = [],
             functions = [], imports_direct = [], imports_from = [],
             calls = [(Some ''Module'', [''main''])] \<rparr>,
      None)
   \<and> string_keyed
       \<lparr> module_name = Some ''Module'', global_variables = [], classes = [],
         functions = [], imports_direct = [], imports_from = [],
         calls = [(Some ''Module'', [''main''])] \<rparr>
   \<and> generate_graph_visualization (\<lambda>dot path format. Rendered (path @ ''.'' @ format))
        (Some \<lparr> module_name = Some ''Module'', global_variables = [], classes = [],
                functions = [], imports_direct = [], imports_from = [],
                calls = [(Some ''Module'', [''main''])] \<rparr>)
        ''out'' ''png'' =
       Inr (Some ''out.png'', ''Visualization graph saved to: out.png'')
   \<and> visit (Module [Other [Call (Name ''main'') [] []]])
        (init_extractor\<lparr>module_name := Some (remove_all ''.py'' (basename ''/p/foo.py''))\<rparr>) =
       Inr \<lparr> module_name = Some ''Module'', global_variables = [], classes = [],
             functions = [], imports_direct = [], imports_from = [],
             calls = [(Some ''Module'', [''main''])], current_scope = [] \<rparr>
   \<and> (path_exists
          \<lparr> path_exists = (\<lambda>p. True), read_file = (\<lambda>p. Inr ''main()''),
                ast_parse = (\<lambda>src. Inr (Module [Other [Call (Name ''main'') [] []]])) \<rparr>
          ''/p/foo.py''
        \<and> (\<exists>source_code tree st'.
              read_file
                \<lparr> path_exists = (\<lambda>p. True), read_file = (\<lambda>p. Inr ''main()''),
                ast_parse = (\<lambda>src. Inr (Module [Other [Call (Name ''main'') [] []]])) \<rparr>
                ''/p/foo.py'' = Inr source_code
            \<and> ast_parse
                \<lparr> path_exists = (\<lambda>p. True), read_file = (\<lambda>p. Inr ''main()''),
                ast_parse = (\<lambda>src. Inr (Module [Other [Call (Name ''main'') [] []]])) \<rparr>
                source_code = Inr tree
            \<and> visit tree
                 (init_extractor
                    \<lparr>module_name := Some (remove_all ''.py'' (basename ''/p/foo.py''))\<rparr>)
                = Inr st'
            \<and> \<lparr> module_name = Some ''Module'', global_variables = [], classes = [],
                functions = [], imports_direct = [], imports_from = [],
                calls = [(Some ''Module'', [''main''])] \<rparr> = code_structure.truncate st'))
   \<and> (\<exists>s' b. Some \<lparr> module_name = Some ''Module'', global_variables = [], classes = [],
                functions = [], imports_direct = [], imports_from = [],
                calls = [(Some ''Module'', [''main''])] \<rparr> = Some s' \<and> build_graph s' = Inr b
          \<and> (\<lambda>dot path format. Rendered (path @ ''.'' @ format)) (digraph.truncate b)
               ''out'' ''png'' = Rendered ''out.png''
          \<and> ''Visualization graph saved to: out.png'' =
              ''Visualization graph saved to: '' @ ''out.png'')
   \<and> (\<exists>b. build_graph
              \<lparr> module_name = Some ''Module'', global_variables = [], classes = [],
                functions = [], imports_direct = [], imports_from = [],
                calls = [(Some ''Module'', [''main''])] \<rparr> = Inr b)
   \<and> build_graph
        \<lparr> module_name = None, global_variables = [], classes = [], functions = [],
          imports_direct = [], imports_from = [], calls = [(None, [''f''])] \<rparr> =
       Inl AttributeError
   \<and> generate_graph_visualization (\<lambda>dot path format. ExecutableNotFound)
        (Some \<lparr> module_name = None, global_variables = [], classes = [], functions = [],
                imports_direct = [], imports_from = [], calls = [(None, [''f''])] \<rparr>)
        ''out'' ''png'' =
       Inl AttributeError
   \<and> (\<exists>m. fst (parse_python_file
                  \<lparr> path_exists = (\<lambda>p. False), read_file = (\<lambda>p. Inr ''main()''),
                    ast_parse = (\<lambda>src. Inr (Module [])) \<rparr>
                  ''/p/foo.py'') = (None, Some m)
          \<and> sublist ''/p/foo.py'' m)
   \<and> (\<exists>m. fst (parse_python_file
                  \<lparr> path_exists = (\<lambda>p. True), read_file = (\<lambda>p. Inl ''Permission denied''),
                    ast_parse = (\<lambda>src. Inr (Module [])) \<rparr>
                  ''/p/foo.py'') = (None, Some m)
          \<and> sublist ''Permission denied'' m)
   \<and> (\<exists>m. fst (parse_python_file
                  \<lparr> path_exists = (\<lambda>p. True), read_file = (\<lambda>p. Inr ''main(''),
                    ast_parse = (\<lambda>src. Inl (SyntaxError ''unexpected EOF'')) \<rparr>
                  ''/p/foo.py'') = (None, Some m)
          \<and> sublist ''unexpected EOF'' m)
   \<and> visit (Module [FunctionDef ''f'' (Arguments [] [] None [] [] None [Name ''x'']) []
                     [] None None])
        (init_extractor\<lparr>module_name := Some (remove_all ''.py'' (basename ''/p/foo.py''))\<rparr>) =
       Inl IndexError
   \<and> (\<exists>m. fst (parse_python_file
                  \<lparr> path_exists = (\<lambda>p. True), read_file = (\<lambda>p. Inr ''main()''),
                    ast_parse =
                      (\<lambda>src. Inr (Module [FunctionDef ''f''
                                             (Arguments [] [] None [] [] None [Name ''x''])
                                             [] [] None None])) \<rparr>
                  ''/p/foo.py'') = (None, Some m)
          \<and> sublist ''list index out of range'' m)
   \<and> (\<exists>m. generate_graph_visualization (\<lambda>dot path format. ExecutableNotFound)
              (Some \<lparr> module_name = Some ''Module'', global_variables = [], classes = [],
                      functions = [], imports_direct = [], imports_from = [],
                      calls = [(Some ''Module'', [''main''])] \<rparr>)
              ''out'' ''png'' = Inr (None, m)
          \<and> sublist ''Graphviz executable (dot) not found'' m)
   \<and> (\<exists>m. generate_graph_visualization (\<lambda>dot path format. RenderException ''disk full'')
              (Some \<lparr> module_name = Some ''Module'', global_variables = [], classes = [],
                      functions = [], imports_direct = [], imports_from = [],
                      calls = [(Some ''Module'', [''main''])] \<rparr>)
              ''out'' ''png'' = Inr (None, m)
          \<and> sublist ''disk full'' m)"
proof -
  let ?s = "\<lparr> module_name = Some ''Module'', global_variables = [], classes = [],
       functions = [], imports_direct = [], imports_from = [],
       calls = [(Some ''Module'', [''main''])] \<rparr>"
  let ?st = "\<lparr> module_name = Some ''Module'', global_variables = [], classes = [],
             functions = [], imports_direct = [], imports_from = [],
             calls = [(Some ''Module'', [''main''])], current_scope = [] \<rparr>"
  let ?nk = "\<lparr> module_name = None, global_variables = [], classes = [], functions = [],
          imports_direct = [], imports_from = [], calls = [(None, [''f''])] \<rparr>"
  let ?tree = "Module [Other [Call (Name ''main'') [] []]]"
  let ?bad = "Module [FunctionDef ''f'' (Arguments [] [] None [] [] None [Name ''x'']) []
                     [] None None]"
  let ?ok = "\<lparr> path_exists = (\<lambda>p. True), read_file = (\<lambda>p. Inr ''main()''),
              ast_parse = (\<lambda>src. Inr ?tree) \<rparr>"
  let ?missing = "\<lparr> path_exists = (\<lambda>p. False), read_file = (\<lambda>p. Inr ''main()''),
                    ast_parse = (\<lambda>src. Inr (Module [])) \<rparr>"
  let ?unreadable = "\<lparr> path_exists = (\<lambda>p. True), read_file = (\<lambda>p. Inl ''Permission denied''),
                    ast_parse = (\<lambda>src. Inr (Module [])) \<rparr>"
  let ?unparsable = "\<lparr> path_exists = (\<lambda>p. True), read_file = (\<lambda>p. Inr ''main(''),
                    ast_parse = (\<lambda>src. Inl (SyntaxError ''unexpected EOF'')) \<rparr>"
  let ?malformed = "\<lparr> path_exists = (\<lambda>p. True), read_file = (\<lambda>p. Inr ''main()''),
                    ast_parse = (\<lambda>src. Inr ?bad) \<rparr>"
  let ?init = "init_extractor\<lparr>module_name := Some (remove_all ''.py'' (basename ''/p/foo.py''))\<rparr>"
  let ?r = "\<lambda>(dot :: digraph) path format. Rendered (path @ ''.'' @ format)"
  let ?none = "\<lambda>(dot :: digraph) (path :: string) (format :: string). ExecutableNotFound"
  let ?full = "\<lambda>(dot :: digraph) (path :: string) (format :: string). RenderException ''disk full''"
  have keyed: "string_keyed ?s"
    by (simp add: string_keyed_def)
  have parsed: "fst (parse_python_file ?ok ''/p/foo.py'') = (Some ?s, None)"
    by (simp add: parse_python_file_def extractor_defs basename_def code_structure.truncate_def)
  have drawn: "generate_graph_visualization ?r (Some ?s) ''out'' ''png'' =
       Inr (Some ''out.png'', ''Visualization graph saved to: out.png'')"
    by (simp add: generate_graph_visualization_def builder_defs)
  have visited: "visit ?tree ?init = Inr ?st"
    by (simp add: extractor_defs)
  have raised: "visit ?bad ?init = Inl IndexError"
    by (simp add: extractor_defs)
  have unbuilt: "build_graph ?nk = Inl AttributeError"
    by (simp add: builder_defs)
  have h_missing: "\<not> path_exists ?missing ''/p/foo.py''"
    by simp
  have h_unreadable: "path_exists ?unreadable ''/p/foo.py''
      \<and> read_file ?unreadable ''/p/foo.py'' = Inl ''Permission denied''"
    by simp
  have h_unparsable: "path_exists ?unparsable ''/p/foo.py''
      \<and> read_file ?unparsable ''/p/foo.py'' = Inr ''main(''
      \<and> ast_parse ?unparsable ''main('' = Inl (SyntaxError ''unexpected EOF'')"
    by simp
  have h_malformed: "path_exists ?malformed ''/p/foo.py''
      \<and> read_file ?malformed ''/p/foo.py'' = Inr ''main()''
      \<and> ast_parse ?malformed ''main()'' = Inr ?bad
      \<and> visit ?bad ?init = Inl IndexError"
    using raised by simp
  note c_stages =
    no_exception_propagates
      [where e = ?ok and filepath = "''/p/foo.py''" and s = ?s,
       THEN conjunct2, THEN conjunct1, THEN mp, OF parsed]
  note c_staged =
    no_exception_propagates
      [where g = "Some ?s" and render = ?r and output_filepath = "''out''"
         and format = "''png''" and p = "''out.png''"
         and msg = "''Visualization graph saved to: out.png''",
       THEN conjunct2, THEN conjunct2, THEN conjunct2, THEN conjunct2, THEN conjunct2, THEN conjunct2, THEN conjunct2, THEN conjunct2, THEN conjunct2, THEN conjunct2, THEN conjunct2, THEN conjunct1, THEN mp, OF drawn]
  note c_missing =
    no_exception_propagates
      [where e = ?missing and filepath = "''/p/foo.py''",
       THEN conjunct2, THEN conjunct2, THEN conjunct1, THEN mp, OF h_missing]
  note c_unreadable =
    no_exception_propagates
      [where e = ?unreadable and filepath = "''/p/foo.py''" and err = "''Permission denied''",
       THEN conjunct2, THEN conjunct2, THEN conjunct2, THEN conjunct1, THEN mp, OF h_unreadable]
  note c_unparsable =
    no_exception_propagates
      [where e = ?unparsable and filepath = "''/p/foo.py''" and source_code = "''main(''"
         and x = "SyntaxError ''unexpected EOF''",
       THEN conjunct2, THEN conjunct2, THEN conjunct2, THEN conjunct2, THEN conjunct1, THEN mp, OF h_unparsable]
  note c_malformed =
    no_exception_propagates
      [where e = ?malformed and filepath = "''/p/foo.py''" and source_code = "''main()''"
         and tree = ?bad and x = IndexError,
       THEN conjunct2, THEN conjunct2, THEN conjunct2, THEN conjunct2, THEN conjunct2, THEN conjunct1, THEN mp, OF h_malformed]
  note c_built =
    no_exception_propagates
      [where s' = ?s, THEN conjunct2, THEN conjunct2, THEN conjunct2, THEN conjunct2, THEN conjunct2, THEN conjunct2, THEN conjunct2, THEN conjunct2, THEN conjunct1, THEN mp, OF keyed]
  then obtain b where built: "build_graph ?s = Inr b" ..
  note c_unbuilt =
    no_exception_propagates
      [where s' = ?nk and x = AttributeError and render = ?none
         and output_filepath = "''out''" and format = "''png''",
       THEN conjunct2, THEN conjunct2, THEN conjunct2, THEN conjunct2, THEN conjunct2, THEN conjunct2, THEN conjunct2, THEN conjunct2, THEN conjunct2, THEN conjunct1, THEN mp, OF unbuilt]
  have h_drawn: "build_graph ?s = Inr b
      \<and> ?r (digraph.truncate b) ''out'' ''png'' = Rendered (''out'' @ ''.'' @ ''png'')"
    using built by simp
  note c_drawn =
    no_exception_propagates
      [where s' = ?s and b = b and render = ?r and output_filepath = "''out''"
         and format = "''png''" and p = "''out'' @ ''.'' @ ''png''",
       THEN conjunct2, THEN conjunct2, THEN conjunct2, THEN conjunct2, THEN conjunct2, THEN conjunct2, THEN conjunct2, THEN conjunct2, THEN conjunct2, THEN conjunct2, THEN conjunct1, THEN mp, OF h_drawn]
  have h_none: "build_graph ?s = Inr b
      \<and> ?none (digraph.truncate b) ''out'' ''png'' = ExecutableNotFound"
    using built by simp
  note c_none =
    no_exception_propagates
      [where s' = ?s and b = b and render = ?none and output_filepath = "''out''"
         and format = "''png''",
       THEN conjunct2, THEN conjunct2, THEN conjunct2, THEN conjunct2, THEN conjunct2, THEN conjunct2, THEN conjunct2, THEN conjunct2, THEN conjunct2, THEN conjunct2, THEN conjunct2, THEN conjunct2, THEN conjunct2, THEN conjunct1, THEN mp, OF h_none]
  have h_full: "build_graph ?s = Inr b
      \<and> ?full (digraph.truncate b) ''out'' ''png'' = RenderException ''disk full''"
    using built by simp
  note c_full =
    no_exception_propagates
      [where s' = ?s and b = b and render = ?full and output_filepath = "''out''"
         and format = "''png''" and t = "''disk full''",
       THEN conjunct2, THEN conjunct2, THEN conjunct2, THEN conjunct2, THEN conjunct2,
       THEN conjunct2, THEN conjunct2, THEN conjunct2, THEN conjunct2, THEN conjunct2,
       THEN conjunct2, THEN conjunct2, THEN conjunct2, THEN conjunct2, THEN mp, OF h_full]
  have c_drawn': "generate_graph_visualization ?r (Some ?s) ''out'' ''png'' =
       Inr (Some ''out.png'', ''Visualization graph saved to: out.png'')"
    using c_drawn by simp
  have c_unparsable': "\<exists>m. fst (parse_python_file ?unparsable ''/p/foo.py'') = (None, Some m)
          \<and> sublist ''unexpected EOF'' m"
    using c_unparsable by (simp only: exception_text.simps)
  have c_malformed': "\<exists>m. fst (parse_python_file ?malformed ''/p/foo.py'') = (None, Some m)
          \<and> sublist ''list index out of range'' m"
    using c_malformed by (simp only: exception_text.simps)
  have c_built': "\<exists>b. build_graph ?s = Inr b"
    using built by (rule exI)
  show ?thesis
    by (intro conjI parsed keyed c_drawn' visited c_stages [THEN conjunct1]
          c_stages [THEN conjunct2] c_staged c_built' unbuilt c_unbuilt c_missing
          c_unreadable c_unparsable' raised c_malformed' c_none c_full)
qed

text \<open>
  C9, as stated, fails for \<^verbatim>\<open>generate_graph_visualization\<close>: the claim is made for
  every input, and the graph is built outside the \<^verbatim>\<open>try\<close>. A structure whose
  \<^verbatim>\<open>calls\<close> has the key \<^verbatim>\<open>None\<close> is what the extractor itself builds when it visits a
  call expression that is not under a module node (its module name is \<^verbatim>\<open>None\<close> then,
  and so is the scope id). Given that structure, line 387 calls \<^verbatim>\<open>split\<close> on
  \<^verbatim>\<open>None\<close>, and the \<^verbatim>\<open>AttributeError\<close> leaves the function: it returns neither a path
  nor a message.
\<close>

theorem none_keyed_structure_raises_counterexample:
  "visit (Other [Call (Name ''f'') [] []]) init_extractor =
     Inr \<lparr> module_name = None, global_variables = [], classes = [], functions = [],
           imports_direct = [], imports_from = [], calls = [(None, [''f''])],
           current_scope = [] \<rparr>
   \<and> generate_graph_visualization (\<lambda>dot path format. Rendered (path @ ''.'' @ format))
        (Some \<lparr> module_name = None, global_variables = [], classes = [], functions = [],
                imports_direct = [], imports_from = [], calls = [(None, [''f''])] \<rparr>)
        ''out'' ''png'' =
       Inl AttributeError"
  by (simp add: generate_graph_visualization_def builder_defs extractor_defs)

section \<open>The module name after a visit\<close>

text \<open>
  The visit of a module leaves the module name \<open>Module\<close>, whatever it was before.
\<close>

lemma module_name_handle:
  "handle n st = Inr st' \<Longrightarrow> module_name st = Some ''Module''
   \<Longrightarrow> module_name st' = Some ''Module''"
  by (cases n) (auto split: sum.splits)

lemma module_name_foldM_handle_at:
  "foldM handle_at es st = Inr st' \<Longrightarrow> module_name st = Some ''Module''
   \<Longrightarrow> module_name st' = Some ''Module''"
proof (induction es arbitrary: st)
  case Nil
  then show ?case by simp
next
  case (Cons e es)
  from Cons.prems(1) obtain st1 where
    step: "handle_at e st = Inr st1" and rest: "foldM handle_at es st1 = Inr st'"
    by (auto split: sum.splits)
  from step obtain st0 where
    h: "handle (snd e) (st\<lparr>current_scope := fst e\<rparr>) = Inr st0"
    and st1: "st1 = st0\<lparr>current_scope := current_scope st\<rparr>"
    by (cases "handle (snd e) (st\<lparr>current_scope := fst e\<rparr>)") (auto simp: handle_at_def)
  from module_name_handle [OF h] Cons.prems(2) have "module_name st1 = Some ''Module''"
    by (simp add: st1)
  with rest show ?case by (rule Cons.IH)
qed

lemma module_name_visit_Module:
  assumes "visit (Module body) st = Inr st'"
  shows "module_name st' = Some ''Module''"
proof -
  let ?st1 = "st\<lparr>module_name := Some ''Module''\<rparr>"
  let ?es = "concat (map (enclosed_nodes (current_scope st)) body)"
  have "foldM visit body ?st1 = foldM handle_at ?es ?st1"
    using foldM_visit_children [of body ?st1] visit_handlers by simp
  with assms have "foldM handle_at ?es ?st1 = Inr st'" by simp
  then show ?thesis by (rule module_name_foldM_handle_at) simp
qed

text \<open>
  So the overwriting of the file's name is not particular to one file: whenever the
  parser returns modules, as \<^verbatim>\<open>ast.parse\<close> does, every structure that
  \<^verbatim>\<open>parse_python_file\<close> returns has the module name \<open>Module\<close>.
\<close>

lemma parse_python_file_module_name:
  assumes "fst (parse_python_file e filepath) = (Some s, None)"
    and "\<And>src. \<exists>body. ast_parse e src = Inr (Module body) \<or> (\<exists>err. ast_parse e src = Inl err)"
  shows "module_name s = Some ''Module''"
proof -
  from assms(1) obtain src tree st' where
    tree: "ast_parse e src = Inr tree"
    and run: "visit tree (init_extractor\<lparr>module_name := Some (remove_all ''.py'' (basename filepath))\<rparr>) = Inr st'"
    and s: "s = code_structure.truncate st'"
    by (auto simp: parse_python_file_def Let_def split: if_splits sum.splits py_exception.splits)
  from assms(2) [of src] tree obtain body where "tree = Module body" by auto
  with run have "visit (Module body)
      (init_extractor\<lparr>module_name := Some (remove_all ''.py'' (basename filepath))\<rparr>) = Inr st'"
    by (simp only:)
  then have "module_name st' = Some ''Module''" by (rule module_name_visit_Module)
  then show ?thesis by (simp add: s code_structure.truncate_def)
qed

end
